theory Spec2Isabelle
  imports
    Main
    "HOL-Library.AList"
    "HOL-Library.Char_ord"
    "HOL-Library.List_Lexorder"
    "HOL-Library.Multiset"
    "HOL-Library.Product_Lexorder"
begin

section \<open>zap2xml: the fetch, merge and render pipeline of \<^verbatim>\<open>zap2xml.py\<close>\<close>

text \<open>
  The development follows the class \<^verbatim>\<open>Zap2XML\<close>. A Python dict whose iteration order
  is observed is an association list with distinct keys (\<open>AList.update\<close> keeps the position
  of a key that is already there and appends a new one, as a dict does); a dict that is only
  looked up is a map. Instance attributes written during the run are fields of the record
  \<open>state\<close>, the options are the record \<open>config\<close>, and what the run takes from outside
  (the server, the JSON and time libraries, the detail files) is the record \<open>env\<close>.
  Strings are lists of 8-bit characters; case mapping is the ASCII one.
\<close>

subsection \<open>String operations of the Python library\<close>

definition lower_char :: "char \<Rightarrow> char" where
  "lower_char c =
     (if CHR ''A'' \<le> c \<and> c \<le> CHR ''Z'' then char_of (of_char c + (32::nat)) else c)"

definition upper_char :: "char \<Rightarrow> char" where
  "upper_char c =
     (if CHR ''a'' \<le> c \<and> c \<le> CHR ''z'' then char_of (of_char c - (32::nat)) else c)"

definition lower :: "string \<Rightarrow> string" where
  "lower s = map lower_char s"

fun capitalize :: "string \<Rightarrow> string" where
  "capitalize [] = []"
| "capitalize (c # cs) = upper_char c # map lower_char cs"

definition startswith :: "string \<Rightarrow> string \<Rightarrow> bool" where
  "startswith s pre = (take (length pre) s = pre)"

text \<open>\<^verbatim>\<open>sub in s\<close> on strings.\<close>

fun contains :: "string \<Rightarrow> string \<Rightarrow> bool" where
  "contains sub [] = (sub = [])"
| "contains sub (c # cs) = (take (length sub) (c # cs) = sub \<or> contains sub cs)"

text \<open>\<^verbatim>\<open>s.split(sep)\<close> for a one-character separator: the pieces between separators,
  empty pieces included.\<close>

fun split_on :: "char \<Rightarrow> string \<Rightarrow> string list" where
  "split_on sep [] = [[]]"
| "split_on sep (c # cs) =
     (if c = sep then [] # split_on sep cs
      else (case split_on sep cs of
              [] \<Rightarrow> [[c]]
            | w # ws \<Rightarrow> (c # w) # ws))"

text \<open>\<^verbatim>\<open>re.sub(r'filter-', '', g, flags=re.I)\<close>: every occurrence, scanning from the
  left, is removed.\<close>

fun strip_filter :: "string \<Rightarrow> string" where
  "strip_filter [] = []"
| "strip_filter (c # cs) =
     (if lower (take 7 (c # cs)) = ''filter-'' then strip_filter (drop 6 cs)
      else c # strip_filter cs)"

text \<open>The default placeholder pattern \<^verbatim>\<open>\bTBA\b|To Be Announced\<close>, searched with
  \<^verbatim>\<open>re.I\<close>. A word character is a letter, a digit or the underscore.\<close>

definition word_char :: "char \<Rightarrow> bool" where
  "word_char c =
     ((CHR ''a'' \<le> c \<and> c \<le> CHR ''z'') \<or> (CHR ''A'' \<le> c \<and> c \<le> CHR ''Z'')
      \<or> (CHR ''0'' \<le> c \<and> c \<le> CHR ''9'') \<or> c = CHR ''_'')"

fun tba_word :: "bool \<Rightarrow> string \<Rightarrow> bool" where
  "tba_word boundary [] = False"
| "tba_word boundary (c # cs) =
     ((boundary \<and> lower (take 3 (c # cs)) = ''tba''
         \<and> (case drop 2 cs of [] \<Rightarrow> True | d # _ \<Rightarrow> \<not> word_char d))
      \<or> tba_word (\<not> word_char c) cs)"

definition default_sTBA :: "string \<Rightarrow> bool" where
  "default_sTBA t = (tba_word True t \<or> contains ''to be announced'' (lower t))"

subsection \<open>Programs and their genre maps\<close>

text \<open>A value of \<^verbatim>\<open>self.programs\<close>: every key of the dict is an optional field.
  The cast and crew keys, which only \<^verbatim>\<open>post_json_overview\<close> writes and only
  \<^verbatim>\<open>print_credits\<close> reads, are not part of the record.\<close>

record program =
  title :: "string option"
  episode :: "string option"
  description :: "string option"
  duration :: "int option"
  movie_year :: "string option"
  seasonNum :: "string option"
  episodeNum :: "string option"
  imageUrl :: "string option"
  url :: "string option"
  genres :: "(string \<times> int) list option"
  rating :: "string option"
  originalAirDate :: "int option"

definition empty_program :: program where
  "empty_program =
     \<lparr>title = None, episode = None, description = None, duration = None,
      movie_year = None, seasonNum = None, episodeNum = None, imageUrl = None,
      url = None, genres = None, rating = None, originalAirDate = None\<rparr>"

text \<open>\<^verbatim>\<open>max(gh.values())\<close> on a dict that is not empty.\<close>

fun max_value :: "int list \<Rightarrow> int" where
  "max_value [] = 0"
| "max_value [v] = v"
| "max_value (v # w # vs) = max v (max_value (w # vs))"

text \<open>The loop of \<^verbatim>\<open>post_json_overview\<close> over \<^verbatim>\<open>series_genres.split('|')\<close>.\<close>

fun add_series_genres :: "string list \<Rightarrow> int \<Rightarrow> (string \<times> int) list \<Rightarrow> (string \<times> int) list" where
  "add_series_genres [] i gh = gh"
| "add_series_genres (sg # sgs) i gh =
     (let g = lower sg in
      if map_of gh g = None then add_series_genres sgs (i + 1) (AList.update g i gh)
      else add_series_genres sgs i gh)"

text \<open>\<^verbatim>\<open>gh = self.programs.get(cp, {}).get('genres', {})\<close> is the stored dict itself when the
  program has one, and the loop then changes the program; otherwise it is a fresh dict and
  what the loop adds is lost.\<close>

definition overview_genres :: "string \<Rightarrow> program \<Rightarrow> program" where
  "overview_genres series_genres p =
     (if series_genres = [] then p
      else (case genres p of
              None \<Rightarrow> p
            | Some gh \<Rightarrow>
                (let max_val = (if gh = [] then 0 else max_value (map snd gh));
                     i = (if max_val \<noteq> 0 then max_val + 1 else 2)
                 in p\<lparr>genres := Some (add_series_genres (split_on CHR ''|'' series_genres) i gh)\<rparr>)))"

text \<open>\<^verbatim>\<open>print_programmes\<close>, the category elements: the keys sorted by (rank, name), each
  written capitalised.\<close>

definition sorted_genres :: "(string \<times> int) list \<Rightarrow> string list" where
  "sorted_genres gh = map fst (sort_key (\<lambda>(g, r). (r, g)) gh)"

definition print_categories :: "program \<Rightarrow> string list" where
  "print_categories p =
     (case genres p of None \<Rightarrow> [] | Some gh \<Rightarrow> map capitalize (sorted_genres gh))"

subsection \<open>Timestamps\<close>

datatype py_error = KeyError | TypeError | ValueError | IndexError | AttributeError

text \<open>\<^verbatim>\<open>str2time1\<close> and \<^verbatim>\<open>str2time2\<close> wrap a library computation,
  \<^verbatim>\<open>int(datetime.strptime(s, fmt).replace(tzinfo=timezone.utc).timestamp())\<close>, in
  \<^verbatim>\<open>try: ... except: return 0\<close>. The library computation is an argument: it gives the
  seconds since the epoch, or the exception it raises.\<close>

definition str2time1 :: "(string \<Rightarrow> py_error + int) \<Rightarrow> string \<Rightarrow> int" where
  "str2time1 strptime1 s = (case strptime1 s of Inl _ \<Rightarrow> 0 | Inr t \<Rightarrow> t)"

definition str2time2 :: "(string \<Rightarrow> py_error + int) \<Rightarrow> string \<Rightarrow> int" where
  "str2time2 strptime2 s = (case strptime2 s of Inl _ \<Rightarrow> 0 | Inr t \<Rightarrow> t)"

text \<open>An instance of the library computation for running the model on examples: the
  zero-padded forms \<^verbatim>\<open>YYYY-MM-DDTHH:MM:SSZ\<close> and \<^verbatim>\<open>YYYY-MM-DDTHH:MMZ\<close> of a valid
  date of the years 1 to 9999, and \<^verbatim>\<open>ValueError\<close> for any other string.\<close>

fun digits_value :: "int \<Rightarrow> string \<Rightarrow> int option" where
  "digits_value acc [] = Some acc"
| "digits_value acc (c # cs) =
     (if CHR ''0'' \<le> c \<and> c \<le> CHR ''9''
      then digits_value (10 * acc + (int (of_char c) - 48)) cs else None)"

definition field_value :: "nat \<Rightarrow> nat \<Rightarrow> string \<Rightarrow> int option" where
  "field_value pos len s = digits_value 0 (take len (drop pos s))"

definition leap_year :: "int \<Rightarrow> bool" where
  "leap_year y = (y mod 4 = 0 \<and> (y mod 100 \<noteq> 0 \<or> y mod 400 = 0))"

definition days_in_month :: "int \<Rightarrow> int \<Rightarrow> int" where
  "days_in_month y m =
     (if m = 2 then (if leap_year y then 29 else 28)
      else if m = 4 \<or> m = 6 \<or> m = 9 \<or> m = 11 then 30 else 31)"

definition days_from_civil :: "int \<Rightarrow> int \<Rightarrow> int \<Rightarrow> int" where
  "days_from_civil y m d =
     (let y' = (if m \<le> 2 then y - 1 else y);
          era = y' div 400;
          yoe = y' - era * 400;
          doy = (153 * ((m + 9) mod 12) + 2) div 5 + d - 1;
          doe = yoe * 365 + yoe div 4 - yoe div 100 + doy
      in era * 146097 + doe - 719468)"

definition utc_seconds :: "bool \<Rightarrow> string \<Rightarrow> py_error + int" where
  "utc_seconds with_seconds s =
     (if length s = (if with_seconds then 20 else 17)
         \<and> take 1 (drop 4 s) = ''-'' \<and> take 1 (drop 7 s) = ''-''
         \<and> take 1 (drop 10 s) = ''T'' \<and> take 1 (drop 13 s) = '':''
         \<and> drop 16 s = (if with_seconds then '':'' @ take 2 (drop 17 s) @ ''Z'' else ''Z'')
      then
        (case (field_value 0 4 s, field_value 5 2 s, field_value 8 2 s,
               field_value 11 2 s, field_value 14 2 s,
               if with_seconds then field_value 17 2 s else Some 0) of
           (Some y, Some m, Some d, Some h, Some mi, Some se) \<Rightarrow>
             (if 1 \<le> y \<and> 1 \<le> m \<and> m \<le> 12 \<and> 1 \<le> d \<and> d \<le> days_in_month y m
                 \<and> h \<le> 23 \<and> mi \<le> 59 \<and> se \<le> 59
              then Inr (days_from_civil y m d * 86400 + h * 3600 + mi * 60 + se)
              else Inl ValueError)
         | _ \<Rightarrow> Inl ValueError)
      else Inl ValueError)"

subsection \<open>Payloads, options, environment and state\<close>

text \<open>An entry of \<^verbatim>\<open>events\<close> in a grid payload, with the keys \<^verbatim>\<open>parse_json\<close> reads. A
  string key that is absent or null is the empty string, an absent list is empty;
  \<open>e_id\<close> to \<open>e_isGeneric\<close> are the keys of the nested \<^verbatim>\<open>program\<close> object
  (\<^verbatim>\<open>isGeneric\<close> defaults to true).\<close>

record event =
  e_id :: string
  e_title :: string
  e_episodeTitle :: string
  e_shortDesc :: string
  e_releaseYear :: string
  e_season :: string
  e_episode :: string
  e_seriesId :: string
  e_tmsId :: string
  e_isGeneric :: bool
  e_duration :: int
  e_thumbnail :: string
  e_startTime :: string
  e_endTime :: string
  e_filter :: "string list"
  e_rating :: string
  e_tags :: "string list"
  e_flag :: "string list"

record channel =
  c_channelId :: string
  c_channelNo :: string
  c_callSign :: string
  c_events :: "event list"

text \<open>The detail payload of \<^verbatim>\<open>post_json_overview\<close>: \<open>o_upcomingEpisode\<close> is
  \<^verbatim>\<open>overviewTab.upcomingEpisode\<close> as the pair (\<^verbatim>\<open>tmsID\<close>, \<^verbatim>\<open>originalAirDate\<close>), both
  empty when the object is absent.\<close>

record overview =
  o_seriesGenres :: string
  o_seriesImage :: string
  o_seriesDescription :: string
  o_upcomingEpisode :: "string \<times> string"
  o_upcomingEpisodeTab :: "(string \<times> string) list"


record airing =
  a_time :: int
  a_endTime :: "int option"
  a_endtime :: "int option"
  a_program :: string
  a_station :: string
  a_cc :: bool
  a_new :: bool
  a_live :: bool
  a_premiere :: bool
  a_finale :: bool
  a_quality :: bool

datatype order_value = OrderNum nat | OrderName string

record station =
  stnNum :: string
  name :: string
  number :: string
  order :: order_value

datatype response = Response int string | ConnectionError

record config =
  start :: int
  days :: int
  ncdays :: int
  ncsdays :: int
  ncmday :: int
  retries :: int
  outputXTVD :: bool
  noTbaCache :: bool
  allChan :: bool
  retainOrder :: bool
  includeDetails :: bool
  seriesCategory :: bool
  opt8 :: bool
  opt9 :: bool
  oldStyleIds :: bool
  zapFavorites :: "string list"
  urlRoot :: string
  urlAssets :: string

text \<open>What a run takes from outside. \<open>http_get\<close> is the server: the answer to the
  \<open>n\<close>-th call of \<^verbatim>\<open>session.get\<close> of the run. \<open>json_loads\<close> is the decoding of a cache
  file into the channels of a grid payload (\<open>None\<close> when \<^verbatim>\<open>json.loads\<close> raises).
  \<open>overview_file\<close> is the decoded detail file \<^verbatim>\<open>O<cp>.js.gz\<close> that
  \<^verbatim>\<open>post_json_overview\<close> finds or downloads for a program and series id (\<open>None\<close> when
  there is none or it does not decode). \<open>sTBA\<close> is \<^verbatim>\<open>re.search(self.sTBA, _, re.I)\<close>.
  \<open>conv_duration_xtvd\<close> is the attribute of that name, which \<^verbatim>\<open>print_schedules_xtvd\<close>
  calls: the class in \<^verbatim>\<open>zap2xml.py\<close> defines no such method, which is \<open>None\<close> here (the
  call raises \<^verbatim>\<open>AttributeError\<close>); \<open>Some f\<close> is an object that has been given one.\<close>

record env =
  hour_to_millis :: int
  http_get :: "nat \<Rightarrow> response"
  json_loads :: "string \<Rightarrow> channel list option"
  overview_file :: "string \<Rightarrow> string \<Rightarrow> overview option"
  sTBA :: "string \<Rightarrow> bool"
  conv_duration_xtvd :: "(int \<Rightarrow> string) option"
  strptime1 :: "string \<Rightarrow> py_error + int"
  strptime2 :: "string \<Rightarrow> py_error + int"

text \<open>The attributes a run writes. \<open>cache\<close> is the cache directory: the content of
  \<^verbatim>\<open><ms>.js.gz\<close> for a bucket start \<open>ms\<close>. \<open>sent\<close> lists the bucket starts of the
  calls of \<^verbatim>\<open>session.get\<close> made so far.\<close>

record state =
  programs :: "string \<rightharpoonup> program"
  stations :: "(string \<times> station) list"
  schedule :: "(string \<times> (int \<times> airing) list) list"
  coNum :: nat
  tba :: bool
  exp :: bool
  cache :: "int \<rightharpoonup> string"
  sent :: "int list"
  treq :: nat
  tb :: nat
  XTVD_startTime :: "int option"
  XTVD_endTime :: "int option"

definition gridHours :: int where
  "gridHours = 3"

subsection \<open>Writing program fields\<close>

text \<open>\<^verbatim>\<open>self.programs.setdefault(cp, {})[key] = value\<close>; also \<^verbatim>\<open>self.programs[cp][key] = value\<close>
  where the program is there.\<close>

definition upd_program :: "string \<Rightarrow> (program \<Rightarrow> program) \<Rightarrow> state \<Rightarrow> state" where
  "upd_program cp f st =
     st\<lparr>programs := (programs st)
           (cp \<mapsto> f (case programs st cp of None \<Rightarrow> empty_program | Some p \<Rightarrow> p))\<rparr>"

definition set_original_air_date :: "string \<Rightarrow> string \<Rightarrow> int \<Rightarrow> state \<Rightarrow> state" where
  "set_original_air_date cp cs sch st =
     (if \<not> (startswith cp ''EP'' \<or> startswith cp ''SH'' \<or> startswith cp ''MV'')
         \<or> length cp < 10 \<or> take 4 (drop 10 cp) = ''0000''
      then st
      else if (case programs st cp of
                 None \<Rightarrow> True
               | Some p \<Rightarrow> (case originalAirDate p of None \<Rightarrow> True | Some t \<Rightarrow> sch < t))
      then upd_program cp (\<lambda>p. p\<lparr>originalAirDate := Some sch\<rparr>) st
      else st)"

subsection \<open>\<^verbatim>\<open>post_json_overview\<close>: merging a detail payload\<close>

definition overview_image :: "config \<Rightarrow> overview \<Rightarrow> program \<Rightarrow> program" where
  "overview_image cfg t p =
     (if imageUrl p = None \<and> o_seriesImage t \<noteq> []
      then p\<lparr>imageUrl := Some (urlAssets cfg @ o_seriesImage t @ ''.jpg'')\<rparr> else p)"

definition overview_description :: "string \<Rightarrow> overview \<Rightarrow> program \<Rightarrow> program" where
  "overview_description cp t p =
     (if startswith cp ''MV'' \<or> startswith cp ''SH''
      then (let series_desc = o_seriesDescription t in
            if series_desc \<noteq> []
               \<and> length series_desc > length (case description p of None \<Rightarrow> [] | Some d \<Rightarrow> d)
            then p\<lparr>description := Some series_desc\<rparr> else p)
      else p)"

definition matching_episode :: "string \<Rightarrow> string \<times> string \<Rightarrow> bool" where
  "matching_episode cp ue =
     (lower (fst ue) = lower cp \<and> snd ue \<noteq> [] \<and> snd ue \<noteq> ''1000-01-01T00:00Z'')"

definition overview_air_date :: "env \<Rightarrow> string \<Rightarrow> overview \<Rightarrow> program \<Rightarrow> program" where
  "overview_air_date env cp t p =
     (if startswith cp ''EP''
      then (if matching_episode cp (o_upcomingEpisode t)
            then p\<lparr>originalAirDate :=
                     Some (str2time2 (strptime2 env) (snd (o_upcomingEpisode t)) * 1000)\<rparr>
            else (case find (matching_episode cp) (o_upcomingEpisodeTab t) of
                    None \<Rightarrow> p
                  | Some ue \<Rightarrow>
                      p\<lparr>originalAirDate := Some (str2time2 (strptime2 env) (snd ue) * 1000)\<rparr>))
      else p)"

text \<open>The steps of the \<^verbatim>\<open>try\<close> block in the order of the source (the cast and crew loops
  between the genres and the image write only cast and crew keys). \<^verbatim>\<open>parse_json\<close> calls
  the function for a program it has just stored; a program id that is not stored is left
  alone here.\<close>

definition post_json_overview :: "config \<Rightarrow> env \<Rightarrow> string \<Rightarrow> string \<Rightarrow> state \<Rightarrow> state" where
  "post_json_overview cfg env cp sid st =
     (case overview_file env cp sid of
        None \<Rightarrow> st
      | Some t \<Rightarrow>
          (case programs st cp of
             None \<Rightarrow> st
           | Some p \<Rightarrow>
               st\<lparr>programs := (programs st)
                     (cp \<mapsto> overview_air_date env cp t
                             (overview_description cp t
                               (overview_image cfg t
                                 (overview_genres (o_seriesGenres t) p))))\<rparr>))"

subsection \<open>\<^verbatim>\<open>parse_tvg_details\<close>\<close>



subsection \<open>\<^verbatim>\<open>parse_json\<close>: one grid payload\<close>

definition basic_program_info :: "config \<Rightarrow> event \<Rightarrow> program \<Rightarrow> program" where
  "basic_program_info cfg e p =
     (let p1 = p\<lparr>title := Some (e_title e)\<rparr>;
          p2 = (if e_episodeTitle e \<noteq> [] then p1\<lparr>episode := Some (e_episodeTitle e)\<rparr> else p1);
          p3 = (if e_shortDesc e \<noteq> [] then p2\<lparr>description := Some (e_shortDesc e)\<rparr> else p2);
          p4 = (if e_duration e > 0 then p3\<lparr>duration := Some (e_duration e)\<rparr> else p3);
          p5 = (if e_releaseYear e \<noteq> [] then p4\<lparr>movie_year := Some (e_releaseYear e)\<rparr> else p4);
          p6 = (if e_season e \<noteq> [] then p5\<lparr>seasonNum := Some (e_season e)\<rparr> else p5);
          p7 = (if e_episode e \<noteq> [] then p6\<lparr>episodeNum := Some (e_episode e)\<rparr> else p6);
          p8 = (if e_thumbnail e \<noteq> []
                then p7\<lparr>imageUrl := Some (urlAssets cfg @ e_thumbnail e @ ''.jpg'')\<rparr> else p7)
      in if e_seriesId e \<noteq> [] \<and> e_tmsId e \<noteq> []
         then p8\<lparr>url := Some (urlRoot cfg @ ''overview-affiliates.html?programSeriesId=''
                               @ e_seriesId e @ ''&tmsId='' @ e_tmsId e)\<rparr>
         else p8)"

text \<open>\<^verbatim>\<open>self.schedule.setdefault(cs, {})[start_time] = {...}\<close> and the later writes of single
  keys of that airing.\<close>

definition station_airings :: "state \<Rightarrow> string \<Rightarrow> (int \<times> airing) list" where
  "station_airings st cs = (case map_of (schedule st) cs of None \<Rightarrow> [] | Some d \<Rightarrow> d)"

definition set_airing :: "string \<Rightarrow> int \<Rightarrow> airing \<Rightarrow> state \<Rightarrow> state" where
  "set_airing cs t a st =
     st\<lparr>schedule := AList.update cs (AList.update t a (station_airings st cs)) (schedule st)\<rparr>"

definition upd_airing :: "string \<Rightarrow> int \<Rightarrow> (airing \<Rightarrow> airing) \<Rightarrow> state \<Rightarrow> state" where
  "upd_airing cs t f st =
     (case map_of (station_airings st cs) t of
        None \<Rightarrow> st
      | Some a \<Rightarrow> set_airing cs t (f a) st)"

fun filter_genres :: "string list \<Rightarrow> int \<Rightarrow> (string \<times> int) list \<Rightarrow> (string \<times> int) list" where
  "filter_genres [] i gh = gh"
| "filter_genres (g # gs) i gh =
     filter_genres gs (i + 1) (AList.update (lower (strip_filter g)) i gh)"

definition event_genres :: "event \<Rightarrow> program \<Rightarrow> program" where
  "event_genres e p =
     (if e_filter e = [] then p
      else p\<lparr>genres := Some (filter_genres (e_filter e) 1
                                (case genres p of None \<Rightarrow> [] | Some gh \<Rightarrow> gh))\<rparr>)"

definition series_category :: "program \<Rightarrow> program" where
  "series_category p =
     p\<lparr>genres := Some (AList.update ''series'' 99 (case genres p of None \<Rightarrow> [] | Some gh \<Rightarrow> gh))\<rparr>"

definition event_flags :: "string \<Rightarrow> string \<Rightarrow> int \<Rightarrow> event \<Rightarrow> state \<Rightarrow> state" where
  "event_flags cp cs start_time e st =
     (let s1 = (if ''CC'' \<in> set (e_tags e)
                then upd_airing cs start_time (\<lambda>a. a\<lparr>a_cc := True\<rparr>) st else st);
          s2 = (if ''New'' \<in> set (e_flag e)
                then set_original_air_date cp cs start_time
                       (upd_airing cs start_time (\<lambda>a. a\<lparr>a_new := True\<rparr>) s1)
                else s1);
          s3 = (if ''Live'' \<in> set (e_flag e)
                then set_original_air_date cp cs start_time
                       (upd_airing cs start_time (\<lambda>a. a\<lparr>a_live := True\<rparr>) s2)
                else s2);
          s4 = (if ''Premiere'' \<in> set (e_flag e)
                then upd_airing cs start_time (\<lambda>a. a\<lparr>a_premiere := True\<rparr>) s3 else s3)
      in if ''Finale'' \<in> set (e_flag e)
         then upd_airing cs start_time (\<lambda>a. a\<lparr>a_finale := True\<rparr>) s4 else s4)"

text \<open>The body of \<^verbatim>\<open>for e in s.get('events', [])\<close>.\<close>

definition parse_json_event :: "config \<Rightarrow> env \<Rightarrow> string \<Rightarrow> event \<Rightarrow> state \<Rightarrow> state" where
  "parse_json_event cfg env cs e st =
     (let cp = e_id e in
      if cp = [] then st
      else
        (let s1 = upd_program cp (basic_program_info cfg e)
                    (st\<lparr>tba := (tba st \<or> sTBA env (e_title e))\<rparr>);
             start_time = str2time1 (strptime1 env) (e_startTime e) * 1000;
             s2 = set_airing cs start_time
                    \<lparr>a_time = start_time,
                     a_endTime = Some (str2time1 (strptime1 env) (e_endTime e) * 1000),
                     a_endtime = None, a_program = cp, a_station = cs, a_cc = False,
                     a_new = False, a_live = False, a_premiere = False, a_finale = False,
                     a_quality = False\<rparr> s1;
             s3 = upd_program cp (event_genres e) s2;
             s4 = (if e_rating e \<noteq> [] then upd_program cp (\<lambda>p. p\<lparr>rating := Some (e_rating e)\<rparr>) s3
                   else s3);
             s5 = event_flags cp cs start_time e s4;
             s6 = (if seriesCategory cfg \<and> \<not> startswith cp ''MV''
                   then upd_program cp series_category s5 else s5)
         in if includeDetails cfg \<and> \<not> e_isGeneric e
            then post_json_overview cfg env cp (e_seriesId e) s6 else s6))"

definition lstrip0 :: "string \<Rightarrow> string" where
  "lstrip0 s = dropWhile (\<lambda>c. c = CHR ''0'') s"

text \<open>The body of \<^verbatim>\<open>for s in t.get('channels', [])\<close>; \<open>zapStarred\<close> is the local dict of
  that name. The station logo (\<^verbatim>\<open>logoURL\<close>, \<^verbatim>\<open>handle_logo\<close>) is left out.\<close>

definition parse_json_channel ::
  "config \<Rightarrow> env \<Rightarrow> channel \<Rightarrow> string list \<times> state \<Rightarrow> string list \<times> state" where
  "parse_json_channel cfg env s acc =
     (let zapStarred = fst acc; st = snd acc; channelId = c_channelId s;
          favs = (\<not> allChan cfg \<and> zapFavorites cfg \<noteq> [])
      in if channelId = [] then acc
         else if favs \<and> channelId \<notin> set (zapFavorites cfg) then acc
         else if favs \<and> opt8 cfg \<and> channelId \<in> set zapStarred then acc
         else
           (let cs = c_channelNo s @ ''.'' @ channelId;
                st1 = (if map_of (stations st) cs = None
                       then st\<lparr>stations := AList.update cs
                                    \<lparr>stnNum = channelId, name = c_callSign s,
                                     number = lstrip0 (c_channelNo s),
                                     order = (if retainOrder cfg then OrderNum (coNum st)
                                              else OrderName (lstrip0 (c_channelNo s)))\<rparr>
                                    (stations st),
                               coNum := coNum st + 1\<rparr>
                       else st)
            in (if favs \<and> opt8 cfg then channelId # zapStarred else zapStarred,
                fold (parse_json_event cfg env cs) (c_events s) st1)))"

text \<open>\<^verbatim>\<open>parse_json(fn)\<close> for the cache file of the bucket that starts at \<open>ms\<close>: a file that
  is not there or does not decode raises inside the \<^verbatim>\<open>try\<close> before anything is written.\<close>

definition parse_json :: "config \<Rightarrow> env \<Rightarrow> int \<Rightarrow> state \<Rightarrow> state" where
  "parse_json cfg env ms st =
     (case cache st ms of
        None \<Rightarrow> st
      | Some content \<Rightarrow>
          (case json_loads env content of
             None \<Rightarrow> st
           | Some channels \<Rightarrow> snd (fold (parse_json_channel cfg env) channels ([], st))))"

subsection \<open>The fetch scheduler: \<^verbatim>\<open>process_options\<close>, \<^verbatim>\<open>get_url\<close>, \<^verbatim>\<open>process_data\<close>\<close>

definition process_options :: "config \<Rightarrow> config" where
  "process_options cfg =
     cfg\<lparr>retries := (if retries cfg > 20 then 20 else retries cfg),
         ncdays := days cfg - ncdays cfg\<rparr>"

text \<open>\<^verbatim>\<open>get_url(url, True)\<close> for the grid url of the bucket that starts at \<open>ms\<close>; \<open>rc\<close>
  is the loop counter. An empty result is the failure value \<^verbatim>\<open>""\<close>.\<close>

function get_url :: "config \<Rightarrow> env \<Rightarrow> int \<Rightarrow> int \<Rightarrow> state \<Rightarrow> string \<times> state" where
  "get_url cfg env ms rc st =
     (if rc < retries cfg then
        (let st1 = st\<lparr>sent := sent st @ [ms]\<rparr> in
         case http_get env (length (sent st)) of
           ConnectionError \<Rightarrow> get_url cfg env ms (rc + 1) st1
         | Response status_code content \<Rightarrow>
             (let st2 = st1\<lparr>treq := treq st1 + 1, tb := tb st1 + length content\<rparr> in
              if status_code = 200 \<and> content \<noteq> [] then (content, st2)
              else if status_code = 500 \<and> contains ''Could not load details'' content
              then ([], st2)
              else get_url cfg env ms (rc + 1) st2))
      else ([], st))"
  by pat_completeness auto
termination
  by (relation "measure (\<lambda>(cfg, env, ms, rc, st). nat (retries cfg - rc))") auto

declare get_url.simps [simp del]

text \<open>The condition of line 485, on whether the cache file exists and the day of the
  bucket.\<close>

definition must_fetch :: "config \<Rightarrow> bool \<Rightarrow> int \<Rightarrow> bool" where
  "must_fetch cfg file_exists curday =
     (\<not> file_exists \<or> curday > ncdays cfg \<or> curday \<le> ncsdays cfg \<or> curday = ncmday cfg)"

text \<open>After the parse: the two \<^verbatim>\<open>unlink_file\<close> calls and the reset of the flags.\<close>

definition after_parse :: "config \<Rightarrow> int \<Rightarrow> state \<Rightarrow> state" where
  "after_parse cfg ms st =
     (let s1 = (if noTbaCache cfg \<and> tba st then st\<lparr>cache := (cache st)(ms := None)\<rparr> else st);
          s2 = (if exp s1 then s1\<lparr>cache := (cache s1)(ms := None)\<rparr> else s1)
      in s2\<lparr>exp := False, tba := False\<rparr>)"

datatype loop_ctl = Break state | Next state

text \<open>The first statement of the loop body; \<open>cnt\<close> is the loop variable \<^verbatim>\<open>count\<close>.\<close>

definition xtvd_times :: "int \<Rightarrow> int \<Rightarrow> int \<Rightarrow> state \<Rightarrow> state" where
  "xtvd_times max_count cnt ms st =
     (if cnt = 0 then st\<lparr>XTVD_startTime := Some ms\<rparr>
      else if cnt = max_count - 1
      then st\<lparr>XTVD_endTime := Some (ms + gridHours * 3600000 - 1)\<rparr>
      else st)"

text \<open>The body of \<^verbatim>\<open>for count in range(max_count)\<close> in the branch for gracenote.com.\<close>

definition bucket :: "config \<Rightarrow> env \<Rightarrow> int \<Rightarrow> int \<Rightarrow> int \<Rightarrow> state \<Rightarrow> loop_ctl" where
  "bucket cfg env max_count cnt ms st =
     (let curday = cnt div (24 div gridHours) + 1;
          st1 = xtvd_times max_count cnt ms st
      in if must_fetch cfg (cache st1 ms \<noteq> None) curday
         then (case get_url cfg env ms 0 st1 of
                 (rs, st2) \<Rightarrow>
                   if rs = [] then Break st2
                   else Next (after_parse cfg ms
                                (parse_json cfg env ms (st2\<lparr>cache := (cache st2)(ms \<mapsto> rs)\<rparr>))))
         else Next (after_parse cfg ms (parse_json cfg env ms st1)))"

function process_loop :: "config \<Rightarrow> env \<Rightarrow> int \<Rightarrow> int \<Rightarrow> int \<Rightarrow> state \<Rightarrow> state" where
  "process_loop cfg env max_count cnt ms st =
     (if cnt < max_count then
        (case bucket cfg env max_count cnt ms st of
           Break st' \<Rightarrow> st'
         | Next st' \<Rightarrow>
             process_loop cfg env max_count (cnt + 1) (ms + gridHours * 3600 * 1000) st')
      else st)"
  by pat_completeness auto
termination
  by (relation "measure (\<lambda>(cfg, env, max_count, cnt, ms, st). nat (max_count - cnt))") auto

declare process_loop.simps [simp del]

text \<open>\<^verbatim>\<open>process_data\<close>, gracenote.com branch. The login that fetches the favourites
  comes before the loop and is not part of the model.\<close>

definition process_data :: "config \<Rightarrow> env \<Rightarrow> state \<Rightarrow> state" where
  "process_data cfg env st =
     (let max_count = days cfg * (24 div gridHours);
          offset = start cfg * 3600 * 24 * 1000;
          ms = hour_to_millis env + offset
      in process_loop cfg env max_count 0 ms st)"

subsection \<open>Station order\<close>

text \<open>\<^verbatim>\<open>(a > b) - (a < b)\<close>.\<close>

definition cmp3 :: "'a::linorder \<Rightarrow> 'a \<Rightarrow> int" where
  "cmp3 a b = (if a > b then 1 else 0) - (if a < b then 1 else 0)"

text \<open>\<^verbatim>\<open>sort_chan\<close>. Every station that \<^verbatim>\<open>parse_json\<close> stores has an \<^verbatim>\<open>order\<close>, so the
  branch comparing names is not reached; comparing a number with a string raises.\<close>

definition sort_chan :: "state \<Rightarrow> string \<Rightarrow> string \<Rightarrow> py_error + int" where
  "sort_chan st a b =
     (case (map_of (stations st) a, map_of (stations st) b) of
        (Some sa, Some sb) \<Rightarrow>
          (case (order sa, order sb) of
             (OrderNum x, OrderNum y) \<Rightarrow>
               Inr (if cmp3 x y = 0 then cmp3 (stnNum sa) (stnNum sb) else cmp3 x y)
           | (OrderName x, OrderName y) \<Rightarrow>
               Inr (if cmp3 x y = 0 then cmp3 (stnNum sa) (stnNum sb) else cmp3 x y)
           | _ \<Rightarrow> Inl TypeError)
      | _ \<Rightarrow> Inl KeyError)"

text \<open>\<^verbatim>\<open>sorted(keys, key=cmp_to_key(c))\<close>: a stable sort, here by insertion.\<close>

fun insert_cmp :: "('a \<Rightarrow> 'a \<Rightarrow> py_error + int) \<Rightarrow> 'a \<Rightarrow> 'a list \<Rightarrow> py_error + 'a list" where
  "insert_cmp c x [] = Inr [x]"
| "insert_cmp c x (y # ys) =
     (case c x y of
        Inl err \<Rightarrow> Inl err
      | Inr r \<Rightarrow>
          if r \<le> 0 then Inr (x # y # ys)
          else (case insert_cmp c x ys of Inl err \<Rightarrow> Inl err | Inr zs \<Rightarrow> Inr (y # zs)))"

fun sorted_cmp :: "('a \<Rightarrow> 'a \<Rightarrow> py_error + int) \<Rightarrow> 'a list \<Rightarrow> py_error + 'a list" where
  "sorted_cmp c [] = Inr []"
| "sorted_cmp c (x # xs) =
     (case sorted_cmp c xs of Inl err \<Rightarrow> Inl err | Inr ys \<Rightarrow> insert_cmp c x ys)"

definition station_to_channel :: "config \<Rightarrow> state \<Rightarrow> string \<Rightarrow> py_error + string" where
  "station_to_channel cfg st s =
     (case map_of (stations st) s of
        None \<Rightarrow> Inl KeyError
      | Some x \<Rightarrow>
          Inr (if oldStyleIds cfg then ''C'' @ number x @ lower (name x) @ ''.gracenote.com''
               else if opt9 cfg then ''I'' @ stnNum x @ ''.labs.gracenote.com''
               else ''I'' @ number x @ ''.'' @ stnNum x @ ''.gracenote.com''))"

subsection \<open>The XMLTV renderer: \<^verbatim>\<open>print_programmes\<close>\<close>

text \<open>A \<^verbatim>\<open>programme\<close> element: the start and stop times in milliseconds (the source writes
  them through \<^verbatim>\<open>conv_time\<close>), the channel id, the program id and the categories. The
  other children of the element are functions of the program and the airing and are not
  kept.\<close>

record programme =
  pr_start :: int
  pr_stop :: int
  pr_channel :: string
  pr_program :: string
  pr_categories :: "string list"

definition programme_element ::
  "config \<Rightarrow> state \<Rightarrow> airing \<Rightarrow> int \<Rightarrow> py_error + programme" where
  "programme_element cfg st a end_time =
     (case station_to_channel cfg st (a_station a) of
        Inl err \<Rightarrow> Inl err
      | Inr ch \<Rightarrow>
          (case programs st (a_program a) of
             None \<Rightarrow> Inl KeyError
           | Some p \<Rightarrow>
               Inr \<lparr>pr_start = a_time a, pr_stop = end_time, pr_channel = ch,
                    pr_program = a_program a, pr_categories = print_categories p\<rparr>))"

text \<open>The \<^verbatim>\<open>while i < len(key_array)\<close> loop for one station: \<open>d\<close> is
  \<^verbatim>\<open>self.schedule[station]\<close>, \<open>out\<close> the elements written so far. A raised exception comes
  with what had been written.\<close>

function programmes_loop ::
  "config \<Rightarrow> state \<Rightarrow> int list \<Rightarrow> nat \<Rightarrow> (int \<times> airing) list \<Rightarrow> programme list
     \<Rightarrow> (py_error \<times> programme list) + (programme list \<times> (int \<times> airing) list)" where
  "programmes_loop cfg st key_array i d out =
     (if i < length key_array then
        (let s = key_array ! i in
         case map_of d s of
           None \<Rightarrow> Inl (KeyError, out)
         | Some a \<Rightarrow>
             if i = length key_array - 1 \<and> a_endtime a = None
             then programmes_loop cfg st key_array (i + 1) (AList.delete s d) out
             else
               (case (case a_endtime a of
                        Some t \<Rightarrow> Inr t
                      | None \<Rightarrow>
                          (if i + 1 < length key_array
                           then (case map_of d (key_array ! (i + 1)) of
                                   None \<Rightarrow> Inl KeyError
                                 | Some b \<Rightarrow> Inr (a_time b))
                           else Inl IndexError)) of
                  Inl err \<Rightarrow> Inl (err, out)
                | Inr end_time \<Rightarrow>
                    (case programme_element cfg st a end_time of
                       Inl err \<Rightarrow> Inl (err, out)
                     | Inr el \<Rightarrow> programmes_loop cfg st key_array (i + 1) d (out @ [el]))))
      else Inr (out, d))"
  by pat_completeness auto
termination
  by (relation "measure (\<lambda>(cfg, st, key_array, i, d, out). length key_array - i)") auto

declare programmes_loop.simps [simp del]

text \<open>\<^verbatim>\<open>sorted(original_keys, key=lambda k: self.schedule[station][k]['time'])\<close>.\<close>

definition keys_by_time :: "(int \<times> airing) list \<Rightarrow> int list" where
  "keys_by_time d = map fst (sort_key (\<lambda>(k, a). a_time a) d)"

text \<open>The loop over the stations, given in the order of \<^verbatim>\<open>sort_chan\<close>.\<close>

fun programmes_stations ::
  "config \<Rightarrow> string list \<Rightarrow> state \<Rightarrow> programme list
     \<Rightarrow> (py_error \<times> programme list) + (programme list \<times> state)" where
  "programmes_stations cfg [] st out = Inr (out, st)"
| "programmes_stations cfg (station # rest) st out =
     (case map_of (schedule st) station of
        None \<Rightarrow> Inl (KeyError, out)
      | Some d \<Rightarrow>
          (case programmes_loop cfg st (keys_by_time d) 0 d out of
             Inl failure \<Rightarrow> Inl failure
           | Inr (out', d') \<Rightarrow>
               programmes_stations cfg rest
                 (st\<lparr>schedule := AList.update station d' (schedule st)\<rparr>) out'))"

definition print_programmes ::
  "config \<Rightarrow> state \<Rightarrow> (py_error \<times> programme list) + (programme list \<times> state)" where
  "print_programmes cfg st =
     (case sorted_cmp (sort_chan st) (map fst (schedule st)) of
        Inl err \<Rightarrow> Inl (err, [])
      | Inr keys \<Rightarrow> programmes_stations cfg keys st [])"

subsection \<open>The XTVD renderer: \<^verbatim>\<open>print_schedules_xtvd\<close>\<close>

record schedule_xtvd =
  sx_program :: string
  sx_station :: string
  sx_time :: int
  sx_duration :: string
  sx_hdtv :: bool
  sx_new :: bool

text \<open>The \<^verbatim>\<open>while\<close> loop for one station. At the last index the key is deleted and the
  loop goes on with \<^verbatim>\<open>continue\<close> at the same index.\<close>

function schedules_loop_xtvd ::
  "env \<Rightarrow> state \<Rightarrow> string \<Rightarrow> int list \<Rightarrow> nat \<Rightarrow> (int \<times> airing) list \<Rightarrow> schedule_xtvd list
     \<Rightarrow> (py_error \<times> schedule_xtvd list) + (schedule_xtvd list \<times> (int \<times> airing) list)" where
  "schedules_loop_xtvd env st station key_array i d out =
     (if i < length key_array then
        (let s = key_array ! i in
         if i = length key_array - 1
         then (case map_of d s of
                 None \<Rightarrow> Inl (KeyError, out)
               | Some a \<Rightarrow> schedules_loop_xtvd env st station key_array i (AList.delete s d) out)
         else
           (case map_of d s of
              None \<Rightarrow> Inl (KeyError, out)
            | Some a \<Rightarrow>
                (case map_of d (key_array ! (i + 1)) of
                   None \<Rightarrow> Inl (KeyError, out)
                 | Some b \<Rightarrow>
                     (case conv_duration_xtvd env of
                        None \<Rightarrow> Inl (AttributeError, out)
                      | Some conv \<Rightarrow>
                          (case map_of (stations st) station of
                             None \<Rightarrow> Inl (KeyError, out)
                           | Some x \<Rightarrow>
                               schedules_loop_xtvd env st station key_array (i + 1) d
                                 (out @ [\<lparr>sx_program = a_program a, sx_station = stnNum x,
                                          sx_time = a_time a,
                                          sx_duration = conv (a_time b - a_time a),
                                          sx_hdtv = a_quality a,
                                          sx_new = (a_new a \<or> a_live a)\<rparr>]))))))
      else Inr (out, d))"
  by pat_completeness auto
termination
  by (relation "measure (\<lambda>(env, st, station, key_array, i, d, out).
                  2 * (length key_array - i)
                  + (if map_of d (key_array ! i) = None then 0 else 1))")
     (auto simp: AList.delete_conv')

declare schedules_loop_xtvd.simps [simp del]

fun schedules_stations_xtvd ::
  "env \<Rightarrow> string list \<Rightarrow> state \<Rightarrow> schedule_xtvd list
     \<Rightarrow> (py_error \<times> schedule_xtvd list) + (schedule_xtvd list \<times> state)" where
  "schedules_stations_xtvd env [] st out = Inr (out, st)"
| "schedules_stations_xtvd env (station # rest) st out =
     (case map_of (schedule st) station of
        None \<Rightarrow> Inl (KeyError, out)
      | Some d \<Rightarrow>
          (case schedules_loop_xtvd env st station (sort (map fst d)) 0 d out of
             Inl failure \<Rightarrow> Inl failure
           | Inr (out', d') \<Rightarrow>
               schedules_stations_xtvd env rest
                 (st\<lparr>schedule := AList.update station d' (schedule st)\<rparr>) out'))"

definition print_schedules_xtvd ::
  "env \<Rightarrow> state \<Rightarrow> (py_error \<times> schedule_xtvd list) + (schedule_xtvd list \<times> state)" where
  "print_schedules_xtvd env st =
     (case sorted_cmp (sort_chan st) (map fst (schedule st)) of
        Inl err \<Rightarrow> Inl (err, [])
      | Inr keys \<Rightarrow> schedules_stations_xtvd env keys st [])"

subsection \<open>\<^verbatim>\<open>write_output_file\<close> and \<^verbatim>\<open>run\<close>\<close>

text \<open>What has been written to the output file: the two times of the XTVD header, the
  channel ids (XMLTV) or station ids (XTVD) in the order of \<^verbatim>\<open>sort_chan\<close>, the
  \<^verbatim>\<open>programme\<close> elements and the XTVD \<^verbatim>\<open>schedule\<close> records. The lineup, programs and
  genres sections of an XTVD file are not kept. \<open>Aborted\<close> is an exception that leaves
  \<^verbatim>\<open>write_output_file\<close>, which only handles \<^verbatim>\<open>OSError\<close>, and ends the run.\<close>

record document =
  doc_header :: "(int \<times> int) option"
  doc_channels :: "string list"
  doc_programmes :: "programme list"
  doc_schedules :: "schedule_xtvd list"

datatype outcome = Written document | Aborted py_error document

definition empty_document :: document where
  "empty_document =
     \<lparr>doc_header = None, doc_channels = [], doc_programmes = [], doc_schedules = []\<rparr>"

fun channel_ids :: "config \<Rightarrow> state \<Rightarrow> string list \<Rightarrow> py_error + string list" where
  "channel_ids cfg st [] = Inr []"
| "channel_ids cfg st (key # keys) =
     (case station_to_channel cfg st key of
        Inl err \<Rightarrow> Inl err
      | Inr ch \<Rightarrow>
          (case channel_ids cfg st keys of Inl err \<Rightarrow> Inl err | Inr chs \<Rightarrow> Inr (ch # chs)))"

definition print_channels :: "config \<Rightarrow> state \<Rightarrow> py_error + string list" where
  "print_channels cfg st =
     (case sorted_cmp (sort_chan st) (map fst (stations st)) of
        Inl err \<Rightarrow> Inl err
      | Inr keys \<Rightarrow> channel_ids cfg st keys)"

definition print_stations_xtvd :: "state \<Rightarrow> py_error + string list" where
  "print_stations_xtvd st =
     (case sorted_cmp (sort_chan st) (map fst (stations st)) of
        Inl err \<Rightarrow> Inl err
      | Inr keys \<Rightarrow> Inr (map (\<lambda>key. case map_of (stations st) key of
                                      None \<Rightarrow> [] | Some x \<Rightarrow> stnNum x) keys))"

text \<open>\<^verbatim>\<open>print_header_xtvd\<close> passes both times to \<^verbatim>\<open>conv_time_xtvd\<close>, which divides its
  argument by 1000: \<^verbatim>\<open>None\<close>, the initial value, raises \<^verbatim>\<open>TypeError\<close>.\<close>

definition print_header_xtvd :: "state \<Rightarrow> py_error + int \<times> int" where
  "print_header_xtvd st =
     (case XTVD_startTime st of
        None \<Rightarrow> Inl TypeError
      | Some t0 \<Rightarrow> (case XTVD_endTime st of None \<Rightarrow> Inl TypeError | Some t1 \<Rightarrow> Inr (t0, t1)))"

definition write_output_file :: "config \<Rightarrow> env \<Rightarrow> state \<Rightarrow> outcome" where
  "write_output_file cfg env st =
     (if outputXTVD cfg then
        (case print_header_xtvd st of
           Inl err \<Rightarrow> Aborted err empty_document
         | Inr h \<Rightarrow>
             (let doc1 = empty_document\<lparr>doc_header := Some h\<rparr> in
              case print_stations_xtvd st of
                Inl err \<Rightarrow> Aborted err doc1
              | Inr ids \<Rightarrow>
                  (let doc2 = doc1\<lparr>doc_channels := ids\<rparr> in
                   case print_schedules_xtvd env st of
                     Inl (err, recs) \<Rightarrow> Aborted err (doc2\<lparr>doc_schedules := recs\<rparr>)
                   | Inr (recs, st') \<Rightarrow> Written (doc2\<lparr>doc_schedules := recs\<rparr>))))
      else
        (case print_channels cfg st of
           Inl err \<Rightarrow> Aborted err empty_document
         | Inr chs \<Rightarrow>
             (let doc1 = empty_document\<lparr>doc_channels := chs\<rparr> in
              case print_programmes cfg st of
                Inl (err, els) \<Rightarrow> Aborted err (doc1\<lparr>doc_programmes := els\<rparr>)
              | Inr (els, st') \<Rightarrow> Written (doc1\<lparr>doc_programmes := els\<rparr>))))"

definition init_state :: state where
  "init_state =
     \<lparr>programs = Map.empty, stations = [], schedule = [], coNum = 0, tba = False,
      exp = False, cache = Map.empty, sent = [], treq = 0, tb = 0,
      XTVD_startTime = None, XTVD_endTime = None\<rparr>"

text \<open>\<^verbatim>\<open>run\<close> from \<^verbatim>\<open>process_options\<close> on, started with the cache directory \<open>files\<close>.\<close>

definition run :: "config \<Rightarrow> env \<Rightarrow> (int \<rightharpoonup> string) \<Rightarrow> outcome" where
  "run cfg env files =
     (let cfg' = process_options cfg;
          st = process_data cfg' env (init_state\<lparr>cache := files\<rparr>)
      in write_output_file cfg' env st)"

subsection \<open>Notions used in the statements\<close>

text \<open>A field of a stored program, \<open>None\<close> when there is no such program or no such
  key.\<close>

definition prog_field :: "(program \<Rightarrow> 'a option) \<Rightarrow> state \<Rightarrow> string \<Rightarrow> 'a option" where
  "prog_field sel st cp = (case programs st cp of None \<Rightarrow> None | Some p \<Rightarrow> sel p)"


text \<open>The attributes that only the fetch loop writes.\<close>

definition fetch_fields ::
  "state \<Rightarrow> (int \<rightharpoonup> string) \<times> int list \<times> bool \<times> nat \<times> nat \<times> int option \<times> int option" where
  "fetch_fields st =
     (cache st, sent st, exp st, treq st, tb st, XTVD_startTime st, XTVD_endTime st)"

text \<open>The events of a payload that \<^verbatim>\<open>parse_json\<close> does not skip: those with a program
  id, of the channels with a channel id that pass the favourites filter (and, with
  \<^verbatim>\<open>opt8\<close>, have not been met before).\<close>

fun processed_events :: "config \<Rightarrow> string list \<Rightarrow> channel list \<Rightarrow> event list" where
  "processed_events cfg zapStarred [] = []"
| "processed_events cfg zapStarred (s # ss) =
     (let channelId = c_channelId s;
          favs = (\<not> allChan cfg \<and> zapFavorites cfg \<noteq> [])
      in if channelId = [] \<or> (favs \<and> channelId \<notin> set (zapFavorites cfg))
            \<or> (favs \<and> opt8 cfg \<and> channelId \<in> set zapStarred)
         then processed_events cfg zapStarred ss
         else filter (\<lambda>e. e_id e \<noteq> []) (c_events s)
              @ processed_events cfg
                  (if favs \<and> opt8 cfg then channelId # zapStarred else zapStarred) ss)"

text \<open>Some title among those events matches the placeholder pattern; \<open>file\<close> is the
  content of the cache file, if there is one.\<close>

definition placeholder_titles :: "config \<Rightarrow> env \<Rightarrow> string option \<Rightarrow> bool" where
  "placeholder_titles cfg env file =
     (case file of
        None \<Rightarrow> False
      | Some content \<Rightarrow>
          (case json_loads env content of
             None \<Rightarrow> False
           | Some channels \<Rightarrow>
               list_ex (\<lambda>e. sTBA env (e_title e)) (processed_events cfg [] channels)))"

text \<open>The two outcomes of the loop body, and the state either of them carries.\<close>

definition halted :: "loop_ctl \<Rightarrow> bool" where
  "halted c = (case c of Break st \<Rightarrow> True | Next st \<Rightarrow> False)"

definition loop_state :: "loop_ctl \<Rightarrow> state" where
  "loop_state c = (case c of Break st \<Rightarrow> st | Next st \<Rightarrow> st)"

text \<open>What a renderer raised, with what it had written, when it did not return.\<close>

definition failure_of :: "'f + 'r \<Rightarrow> 'f option" where
  "failure_of r = (case r of Inl f \<Rightarrow> Some f | Inr x \<Rightarrow> None)"

text \<open>No airing of the schedule has the key \<^verbatim>\<open>endtime\<close>.\<close>

definition no_endtime :: "state \<Rightarrow> bool" where
  "no_endtime st = (\<forall>d \<in> snd ` set (schedule st). \<forall>a \<in> snd ` set d. a_endtime a = None)"

subsection \<open>Example inputs\<close>

text \<open>The options as \<^verbatim>\<open>__init__\<close> sets them.\<close>

definition default_config :: config where
  "default_config =
     \<lparr>start = 0, days = 7, ncdays = 0, ncsdays = 0, ncmday = -1, retries = 3,
      outputXTVD = False, noTbaCache = False, allChan = False, retainOrder = False,
      includeDetails = False, seriesCategory = False, opt8 = False, opt9 = False,
      oldStyleIds = False, zapFavorites = [],
      urlRoot = ''https://tvlistings.gracenote.com/'',
      urlAssets = ''https://zap2it.tmsimg.com/assets/''\<rparr>"

definition blank_event :: event where
  "blank_event =
     \<lparr>e_id = [], e_title = [], e_episodeTitle = [], e_shortDesc = [], e_releaseYear = [],
      e_season = [], e_episode = [], e_seriesId = [], e_tmsId = [], e_isGeneric = True,
      e_duration = 0, e_thumbnail = [], e_startTime = [], e_endTime = [], e_filter = [],
      e_rating = [], e_tags = [], e_flag = []\<rparr>"

definition offline_env :: env where
  "offline_env =
     \<lparr>hour_to_millis = 0, http_get = (\<lambda>n. ConnectionError), json_loads = (\<lambda>s. None),
      overview_file = (\<lambda>cp sid. None), sTBA = default_sTBA, conv_duration_xtvd = None,
      strptime1 = utc_seconds True, strptime2 = utc_seconds False\<rparr>"

definition news_family_program :: program where
  "news_family_program =
     empty_program\<lparr>title := Some ''Evening Magazine'',
                   genres := Some [(''news'', 1), (''family'', 1)]\<rparr>"

definition drama_overview :: overview where
  "drama_overview =
     \<lparr>o_seriesGenres = ''drama'', o_seriesImage = [], o_seriesDescription = [],
      o_upcomingEpisode = ([], []), o_upcomingEpisodeTab = []\<rparr>"


definition episode_overview :: overview where
  "episode_overview =
     \<lparr>o_seriesGenres = [], o_seriesImage = [], o_seriesDescription = [],
      o_upcomingEpisode = (''ep012345670001'', ''2020-01-01T00:00Z''),
      o_upcomingEpisodeTab = []\<rparr>"

definition episode_state :: state where
  "episode_state =
     init_state\<lparr>programs := [''EP012345670001'' \<mapsto>
                    empty_program\<lparr>title := Some ''Pilot'', originalAirDate := Some 1000000\<rparr>]\<rparr>"

text \<open>Two grid payloads, \<^verbatim>\<open>grid-a\<close> with two events of one channel and \<^verbatim>\<open>grid-b\<close> with
  one event, and a server that answers the first request with \<^verbatim>\<open>grid-a\<close> and fails from
  then on.\<close>

definition timed_event :: "string \<Rightarrow> string \<Rightarrow> string \<Rightarrow> string \<Rightarrow> event" where
  "timed_event cp ttl t0 t1 =
     blank_event\<lparr>e_id := cp, e_title := ttl, e_startTime := t0, e_endTime := t1\<rparr>"

definition two_events_channel :: channel where
  "two_events_channel =
     \<lparr>c_channelId = ''10001'', c_channelNo = ''007'', c_callSign = ''KAAA'',
      c_events =
        [timed_event ''EP000000010001'' ''TBA'' ''1970-01-01T00:01:40Z'' ''1970-01-01T00:03:20Z'',
         timed_event ''EP000000020001'' ''Evening News'' ''1970-01-01T00:05:00Z''
           ''1970-01-01T00:06:40Z'']\<rparr>"

definition one_event_channel :: channel where
  "one_event_channel =
     \<lparr>c_channelId = ''10002'', c_channelNo = ''9'', c_callSign = ''KBBB'',
      c_events =
        [timed_event ''EP000000030001'' ''Late Show'' ''1970-01-01T00:05:00Z''
           ''1970-01-01T00:06:40Z'']\<rparr>"

definition grid_env :: env where
  "grid_env =
     offline_env
       \<lparr>http_get := (\<lambda>n. if n = 0 then Response 200 ''grid-a'' else ConnectionError),
        json_loads := (\<lambda>s. if s = ''grid-a'' then Some [two_events_channel]
                           else if s = ''grid-b'' then Some [one_event_channel] else None)\<rparr>"

definition cached_state :: "string \<Rightarrow> state" where
  "cached_state content = init_state\<lparr>cache := [0 \<mapsto> content]\<rparr>"

text \<open>A schedule whose airings have the key \<^verbatim>\<open>endtime\<close>, the one \<^verbatim>\<open>parse_tvg_grid\<close>
  writes (line 868): three airings without it and one, at 300, with the end time 400.\<close>

definition endtime_state :: state where
  "endtime_state =
     init_state
       \<lparr>programs := [''EP000000010001'' \<mapsto> empty_program\<lparr>title := Some ''Morning News''\<rparr>],
        stations := [(''7.10001'', \<lparr>stnNum = ''10001'', name = ''KAAA'', number = ''7'',
                                   order = OrderName ''7''\<rparr>)],
        schedule := [(''7.10001'',
           map (\<lambda>(t, e). (t, \<lparr>a_time = t, a_endTime = None, a_endtime = e,
                                a_program = ''EP000000010001'', a_station = ''7.10001'',
                                a_cc = False, a_new = False, a_live = False,
                                a_premiere = False, a_finale = False, a_quality = False\<rparr>))
             [(500, None), (100, None), (300, Some 400), (200, None)])]\<rparr>"

section \<open>Properties\<close>

subsection \<open>What the steps of an event leave alone\<close>

lemma schedule_upd_program [simp]: "schedule (upd_program cp f st) = schedule st"
  by (simp add: upd_program_def)

lemma schedule_set_original_air_date [simp]:
  "schedule (set_original_air_date cp cs sch st) = schedule st"
  by (simp add: set_original_air_date_def)

lemma schedule_post_json_overview [simp]:
  "schedule (post_json_overview cfg env cp sid st) = schedule st"
  by (simp add: post_json_overview_def split: option.splits)

lemma station_airings_cong: "schedule st = schedule st' \<Longrightarrow> station_airings st cs = station_airings st' cs"
  by (simp add: station_airings_def)

lemma station_airings_upd_program [simp]: "station_airings (upd_program cp f st) cs = station_airings st cs"
  by (simp add: station_airings_def)

lemma station_airings_set_original_air_date [simp]:
  "station_airings (set_original_air_date cp cs' sch st) cs = station_airings st cs"
  by (simp add: station_airings_def)

lemma station_airings_post_json_overview [simp]:
  "station_airings (post_json_overview cfg env cp sid st) cs = station_airings st cs"
  by (simp add: station_airings_def)

lemma station_airings_set_airing [simp]:
  "station_airings (set_airing cs t a st) cs = AList.update t a (station_airings st cs)"
  by (simp add: set_airing_def station_airings_def AList.update_conv')

lemma airing_set_airing [simp]:
  "map_of (station_airings (set_airing cs t a st) cs) t = Some a"
  by (simp add: AList.update_conv')

lemma airing_upd_airing:
  "map_of (station_airings st cs) t = Some a \<Longrightarrow>
   map_of (station_airings (upd_airing cs t f st) cs) t = Some (f a)"
  by (simp add: upd_airing_def AList.update_conv')

lemma airing_event_flags:
  "map_of (station_airings st cs) t = Some a \<Longrightarrow>
   map_of (station_airings (event_flags cp cs t e st) cs) t =
     Some (a\<lparr>a_cc := (a_cc a \<or> ''CC'' \<in> set (e_tags e)),
             a_new := (a_new a \<or> ''New'' \<in> set (e_flag e)),
             a_live := (a_live a \<or> ''Live'' \<in> set (e_flag e)),
             a_premiere := (a_premiere a \<or> ''Premiere'' \<in> set (e_flag e)),
             a_finale := (a_finale a \<or> ''Finale'' \<in> set (e_flag e))\<rparr>)"
proof -
  assume a: "map_of (station_airings st cs) t = Some a"
  define s1 where "s1 = (if ''CC'' \<in> set (e_tags e)
                then upd_airing cs t (\<lambda>a. a\<lparr>a_cc := True\<rparr>) st else st)"
  define s2 where "s2 = (if ''New'' \<in> set (e_flag e)
                then set_original_air_date cp cs t
                       (upd_airing cs t (\<lambda>a. a\<lparr>a_new := True\<rparr>) s1)
                else s1)"
  define s3 where "s3 = (if ''Live'' \<in> set (e_flag e)
                then set_original_air_date cp cs t
                       (upd_airing cs t (\<lambda>a. a\<lparr>a_live := True\<rparr>) s2)
                else s2)"
  define s4 where "s4 = (if ''Premiere'' \<in> set (e_flag e)
                then upd_airing cs t (\<lambda>a. a\<lparr>a_premiere := True\<rparr>) s3 else s3)"
  have 1: "map_of (station_airings s1 cs) t = Some (a\<lparr>a_cc := (a_cc a \<or> ''CC'' \<in> set (e_tags e))\<rparr>)"
    using a by (simp add: s1_def airing_upd_airing)
  have 2: "map_of (station_airings s2 cs) t = Some (a\<lparr>a_cc := (a_cc a \<or> ''CC'' \<in> set (e_tags e)),
             a_new := (a_new a \<or> ''New'' \<in> set (e_flag e))\<rparr>)"
    using 1 by (simp add: s2_def airing_upd_airing)
  have 3: "map_of (station_airings s3 cs) t = Some (a\<lparr>a_cc := (a_cc a \<or> ''CC'' \<in> set (e_tags e)),
             a_new := (a_new a \<or> ''New'' \<in> set (e_flag e)),
             a_live := (a_live a \<or> ''Live'' \<in> set (e_flag e))\<rparr>)"
    using 2 by (simp add: s3_def airing_upd_airing)
  have 4: "map_of (station_airings s4 cs) t = Some (a\<lparr>a_cc := (a_cc a \<or> ''CC'' \<in> set (e_tags e)),
             a_new := (a_new a \<or> ''New'' \<in> set (e_flag e)),
             a_live := (a_live a \<or> ''Live'' \<in> set (e_flag e)),
             a_premiere := (a_premiere a \<or> ''Premiere'' \<in> set (e_flag e))\<rparr>)"
    using 3 by (simp add: s4_def airing_upd_airing)
  have "event_flags cp cs t e st = (if ''Finale'' \<in> set (e_flag e)
         then upd_airing cs t (\<lambda>a. a\<lparr>a_finale := True\<rparr>) s4 else s4)"
    by (simp add: event_flags_def Let_def s1_def s2_def s3_def s4_def)
  then show ?thesis using 4 by (simp add: airing_upd_airing)
qed

lemma airing_parse_json_event:
  assumes "e_id e \<noteq> []"
  shows "map_of (station_airings (parse_json_event cfg env cs e st) cs)
           (str2time1 (strptime1 env) (e_startTime e) * 1000) =
         Some \<lparr>a_time = str2time1 (strptime1 env) (e_startTime e) * 1000,
               a_endTime = Some (str2time1 (strptime1 env) (e_endTime e) * 1000),
               a_endtime = None, a_program = e_id e, a_station = cs,
               a_cc = (''CC'' \<in> set (e_tags e)), a_new = (''New'' \<in> set (e_flag e)),
               a_live = (''Live'' \<in> set (e_flag e)),
               a_premiere = (''Premiere'' \<in> set (e_flag e)),
               a_finale = (''Finale'' \<in> set (e_flag e)), a_quality = False\<rparr>"
  using assms by (simp add: parse_json_event_def Let_def airing_event_flags AList.update_conv')

lemma prog_field_upd_program:
  "prog_field sel (upd_program cp f st) cp' =
     (if cp' = cp then sel (f (case programs st cp of None \<Rightarrow> empty_program | Some p \<Rightarrow> p))
      else prog_field sel st cp')"
  by (simp add: prog_field_def upd_program_def)


lemma programs_set_airing [simp]: "programs (set_airing cs t a st) = programs st"
  by (simp add: set_airing_def)

lemma programs_upd_airing [simp]: "programs (upd_airing cs t f st) = programs st"
  by (simp add: upd_airing_def split: option.splits)

lemma prog_field_cong: "programs st = programs st' \<Longrightarrow> prog_field sel st cp = prog_field sel st' cp"
  by (simp add: prog_field_def)

lemma prog_field_set_airing [simp]: "prog_field sel (set_airing cs t a st) cp = prog_field sel st cp"
  by (simp add: prog_field_def)

lemma prog_field_upd_airing [simp]: "prog_field sel (upd_airing cs t f st) cp = prog_field sel st cp"
  by (simp add: prog_field_def)

lemma prog_field_tba [simp]: "prog_field sel (st\<lparr>tba := b\<rparr>) cp = prog_field sel st cp"
  by (simp add: prog_field_def)



lemma rating_basic_program_info [simp]: "rating (basic_program_info cfg e p) = rating p"
  by (simp add: basic_program_info_def Let_def)

lemma rating_event_genres [simp]: "rating (event_genres e p) = rating p"
  by (simp add: event_genres_def)

lemma rating_series_category [simp]: "rating (series_category p) = rating p"
  by (simp add: series_category_def)

lemma rating_overview [simp]:
  "rating (overview_genres g p) = rating p"
  "rating (overview_image cfg t p) = rating p"
  "rating (overview_description cp t p) = rating p"
  "rating (overview_air_date env cp t p) = rating p"
  by (simp_all add: overview_genres_def overview_image_def overview_description_def
        overview_air_date_def Let_def split: option.splits)

lemma rating_empty [simp]: "rating empty_program = None"
  by (simp add: empty_program_def)

lemma description_empty [simp]: "description empty_program = None"
  by (simp add: empty_program_def)

lemma prog_field_rating_overview [simp]:
  "prog_field rating (post_json_overview cfg env cp sid st) cp' = prog_field rating st cp'"
  by (simp add: post_json_overview_def prog_field_def split: option.splits)





subsection \<open>Ratings\<close>




subsection \<open>Genres\<close>

text \<open>
  Claim C9. A program whose genre map is \<^verbatim>\<open>{"news": 1, "family": 1}\<close> is enriched with
  the series genre \<^verbatim>\<open>drama\<close>: the enricher gives \<^verbatim>\<open>drama\<close> the rank 2, above the
  largest rank so far, and the renderer, sorting by (rank, name), writes the categories
  in the order family, news, drama.
\<close>

theorem C9_genre_rank_and_order:
  "(case programs
           (post_json_overview default_config
              (offline_env\<lparr>overview_file := (\<lambda>cp sid. Some drama_overview)\<rparr>)
              ''SH012345670000'' ''SH01234567''
              (init_state\<lparr>programs := [''SH012345670000'' \<mapsto> news_family_program]\<rparr>))
           ''SH012345670000'' of
      None \<Rightarrow> False
    | Some p \<Rightarrow>
        genres p = Some [(''news'', 1), (''family'', 1), (''drama'', 2)]
        \<and> max_value (map snd [(''news'', 1), (''family'', 1 :: int)]) < 2
        \<and> sorted_genres [(''news'', 1), (''family'', 1), (''drama'', 2)]
            = [''family'', ''news'', ''drama'']
        \<and> print_categories p = [''Family'', ''News'', ''Drama''])"
  by code_simp

subsection \<open>Timestamps of the schedule\<close>

text \<open>
  Claim C10. \<^verbatim>\<open>str2time1\<close> returns for every string: the seconds the library computes,
  and 0 whenever the library raises, as it does for a string that is not of the format.
  An event with a program id whose start time does not parse is recorded as the airing
  of its station under the key 0.
\<close>

theorem C10_str2time1_never_raises:
  "(parse s = Inl err \<longrightarrow> str2time1 parse s = 0)
   \<and> (parse s = Inr t \<longrightarrow> str2time1 parse s = t)
   \<and> (e_id e \<noteq> [] \<and> strptime1 env (e_startTime e) = Inl err' \<longrightarrow>
        (\<exists>a. map_of (station_airings (parse_json_event cfg env cs e st) cs) 0 = Some a
             \<and> a_time a = 0 \<and> a_program a = e_id e \<and> a_station a = cs))"
proof (intro conjI impI)
  assume h: "e_id e \<noteq> [] \<and> strptime1 env (e_startTime e) = Inl err'"
  then have z: "str2time1 (strptime1 env) (e_startTime e) * 1000 = 0"
    by (simp add: str2time1_def)
  from h have "e_id e \<noteq> []" by simp
  from airing_parse_json_event [OF this, of cfg env cs st]
  show "\<exists>a. map_of (station_airings (parse_json_event cfg env cs e st) cs) 0 = Some a
             \<and> a_time a = 0 \<and> a_program a = e_id e \<and> a_station a = cs"
    by (simp add: z)
qed (simp_all add: str2time1_def)

text \<open>C10 at the empty string, the value of a missing \<^verbatim>\<open>startTime\<close>, and at a
  well-formed time.\<close>

theorem C10_witness:
  "utc_seconds True [] = Inl ValueError
   \<and> str2time1 (utc_seconds True) [] = 0
   \<and> utc_seconds True ''1970-01-01T00:01:40Z'' = Inr 100
   \<and> str2time1 (utc_seconds True) ''1970-01-01T00:01:40Z'' = 100
   \<and> (\<exists>a. map_of (station_airings
                     (parse_json_event default_config offline_env ''7.10001''
                        (blank_event\<lparr>e_id := ''EP000000010001''\<rparr>) init_state) ''7.10001'') 0
             = Some a
          \<and> a_time a = 0 \<and> a_program a = ''EP000000010001'' \<and> a_station a = ''7.10001'')"
proof -
  have v: "utc_seconds True [] = Inl ValueError" by (simp add: utc_seconds_def)
  have w: "utc_seconds True ''1970-01-01T00:01:40Z'' = Inr 100" by code_simp
  have e: "e_id (blank_event\<lparr>e_id := ''EP000000010001''\<rparr>) \<noteq> []
      \<and> strptime1 offline_env (e_startTime (blank_event\<lparr>e_id := ''EP000000010001''\<rparr>))
          = Inl ValueError"
    by (simp add: blank_event_def offline_env_def v)
  show ?thesis
    using v w e
      C10_str2time1_never_raises
        [of "utc_seconds True" "[]" ValueError 100
            "blank_event\<lparr>e_id := ''EP000000010001''\<rparr>" offline_env ValueError
            default_config "''7.10001''" init_state]
      C10_str2time1_never_raises
        [of "utc_seconds True" "''1970-01-01T00:01:40Z''" ValueError 100
            "blank_event\<lparr>e_id := ''EP000000010001''\<rparr>" offline_env ValueError
            default_config "''7.10001''" init_state]
    by simp
qed

subsection \<open>Descriptions\<close>


lemma description_event_genres [simp]: "description (event_genres e p) = description p"
  by (simp add: event_genres_def)

lemma description_series_category [simp]: "description (series_category p) = description p"
  by (simp add: series_category_def)

lemma description_overview [simp]:
  "description (overview_genres g p) = description p"
  "description (overview_image cfg t p) = description p"
  "description (overview_air_date env cp t p) = description p"
  by (simp_all add: overview_genres_def overview_image_def overview_air_date_def Let_def
        split: option.splits)

lemma originalAirDate_overview [simp]:
  "originalAirDate (overview_genres g p) = originalAirDate p"
  "originalAirDate (overview_image cfg t p) = originalAirDate p"
  "originalAirDate (overview_description cp t p) = originalAirDate p"
  by (simp_all add: overview_genres_def overview_image_def overview_description_def Let_def
        split: option.splits)







subsection \<open>The original air date in the enrichment\<close>

text \<open>
  Claim C6, as amended. In the enrichment of a program whose id starts with \<^verbatim>\<open>EP\<close>, the
  original air date is taken only from an upcoming-episode record whose id equals the
  program id up to case and whose date is neither empty nor \<^verbatim>\<open>1000-01-01T00:00Z\<close>: the
  record of the overview tab if it qualifies, else the first such record of the
  upcoming-episode tab. When there is such a record its date, as \<^verbatim>\<open>str2time2\<close> reads it
  (0 for a date that does not parse), replaces the stored value, whatever that was; when
  there is none, and for every other program id, the stored value stays.
\<close>

theorem C6_original_air_date_enrichment:
  "(programs st cp = Some p \<and> overview_file env cp sid = Some t \<and> startswith cp ''EP'' \<longrightarrow>
      prog_field originalAirDate (post_json_overview cfg env cp sid st) cp =
        (case find (\<lambda>ue. lower (fst ue) = lower cp \<and> snd ue \<noteq> []
                            \<and> snd ue \<noteq> ''1000-01-01T00:00Z'')
                   (o_upcomingEpisode t # o_upcomingEpisodeTab t) of
           None \<Rightarrow> originalAirDate p
         | Some ue \<Rightarrow> Some (str2time2 (strptime2 env) (snd ue) * 1000)))
   \<and> (programs st cp = Some p \<and> \<not> startswith cp ''EP'' \<longrightarrow>
        prog_field originalAirDate (post_json_overview cfg env cp sid st) cp = originalAirDate p)"
proof (intro conjI impI)
  assume h: "programs st cp = Some p \<and> overview_file env cp sid = Some t \<and> startswith cp ''EP''"
  have m: "matching_episode cp = (\<lambda>ue. lower (fst ue) = lower cp \<and> snd ue \<noteq> []
                            \<and> snd ue \<noteq> ''1000-01-01T00:00Z'')"
    by (rule ext) (simp add: matching_episode_def)
  show "prog_field originalAirDate (post_json_overview cfg env cp sid st) cp =
        (case find (\<lambda>ue. lower (fst ue) = lower cp \<and> snd ue \<noteq> []
                            \<and> snd ue \<noteq> ''1000-01-01T00:00Z'')
                   (o_upcomingEpisode t # o_upcomingEpisodeTab t) of
           None \<Rightarrow> originalAirDate p
         | Some ue \<Rightarrow> Some (str2time2 (strptime2 env) (snd ue) * 1000))"
    unfolding m [symmetric] using h
    by (simp add: post_json_overview_def prog_field_def overview_air_date_def
          split: option.splits)
next
  assume "programs st cp = Some p \<and> \<not> startswith cp ''EP''"
  then show "prog_field originalAirDate (post_json_overview cfg env cp sid st) cp
      = originalAirDate p"
    by (simp add: post_json_overview_def prog_field_def overview_air_date_def
          split: option.splits)
qed

text \<open>The amended statement of C6 at an episode with a matching record, and at a show,
  whose stored date stays.\<close>

theorem C6_witness:
  "prog_field originalAirDate
       (post_json_overview default_config
          (offline_env\<lparr>overview_file := (\<lambda>cp sid. Some episode_overview)\<rparr>)
          ''EP012345670001'' ''SH01234567'' episode_state)
       ''EP012345670001'' = Some 1577836800000
   \<and> prog_field originalAirDate
       (post_json_overview default_config
          (offline_env\<lparr>overview_file := (\<lambda>cp sid. Some episode_overview)\<rparr>)
          ''SH012345670000'' ''SH01234567''
          (init_state\<lparr>programs := [''SH012345670000'' \<mapsto>
              empty_program\<lparr>originalAirDate := Some 1000000\<rparr>]\<rparr>))
       ''SH012345670000'' = Some 1000000"
proof -
  have t: "str2time2 (utc_seconds False) ''2020-01-01T00:00Z'' * 1000 = 1577836800000"
    by code_simp
  have l: "lower ''ep012345670001'' = lower ''EP012345670001''"
    by code_simp
  show ?thesis
    using C6_original_air_date_enrichment
      [of episode_state "''EP012345670001''"
          "empty_program\<lparr>title := Some ''Pilot'', originalAirDate := Some 1000000\<rparr>"
          "offline_env\<lparr>overview_file := (\<lambda>cp sid. Some episode_overview)\<rparr>"
          "''SH01234567''" episode_overview default_config]
      C6_original_air_date_enrichment
      [of "init_state\<lparr>programs := [''SH012345670000'' \<mapsto>
              empty_program\<lparr>originalAirDate := Some 1000000\<rparr>]\<rparr>" "''SH012345670000''"
          "empty_program\<lparr>originalAirDate := Some 1000000\<rparr>"
          "offline_env\<lparr>overview_file := (\<lambda>cp sid. Some episode_overview)\<rparr>"
          "''SH01234567''" episode_overview default_config]
    by (simp add: episode_state_def episode_overview_def offline_env_def startswith_def t l
          empty_program_def)
qed

text \<open>Claim C6 as stated fails: the stored date 1000000 (16 minutes after the epoch) is
  replaced by the later date of the matching record, the first of January 2020.\<close>

theorem C6_counterexample:
  "prog_field originalAirDate episode_state ''EP012345670001'' = Some 1000000
   \<and> prog_field originalAirDate
       (post_json_overview default_config
          (offline_env\<lparr>overview_file := (\<lambda>cp sid. Some episode_overview)\<rparr>)
          ''EP012345670001'' ''SH01234567'' episode_state)
       ''EP012345670001'' = Some 1577836800000"
  by code_simp

subsection \<open>What a parse leaves alone, and the placeholder flag\<close>

lemma fetch_fields_upd_program [simp]: "fetch_fields (upd_program cp f st) = fetch_fields st"
  by (simp add: fetch_fields_def upd_program_def)

lemma fetch_fields_set_airing [simp]: "fetch_fields (set_airing cs t a st) = fetch_fields st"
  by (simp add: fetch_fields_def set_airing_def)

lemma fetch_fields_upd_airing [simp]: "fetch_fields (upd_airing cs t f st) = fetch_fields st"
  by (simp add: upd_airing_def split: option.splits)

lemma fetch_fields_set_original_air_date [simp]:
  "fetch_fields (set_original_air_date cp cs sch st) = fetch_fields st"
  by (simp add: set_original_air_date_def)

lemma fetch_fields_event_flags [simp]:
  "fetch_fields (event_flags cp cs t e st) = fetch_fields st"
  by (simp add: event_flags_def Let_def)

lemma fetch_fields_post_json_overview [simp]:
  "fetch_fields (post_json_overview cfg env cp sid st) = fetch_fields st"
  by (simp add: post_json_overview_def fetch_fields_def split: option.splits)

lemma fetch_fields_tba [simp]: "fetch_fields (st\<lparr>tba := b\<rparr>) = fetch_fields st"
  by (simp add: fetch_fields_def)

lemma fetch_fields_parse_json_event [simp]:
  "fetch_fields (parse_json_event cfg env cs e st) = fetch_fields st"
  by (simp add: parse_json_event_def Let_def)

lemma fetch_fields_events [simp]:
  "fetch_fields (fold (parse_json_event cfg env cs) es st) = fetch_fields st"
  by (induction es arbitrary: st) simp_all

lemma fetch_fields_parse_json_channel [simp]:
  "fetch_fields (snd (parse_json_channel cfg env s acc)) = fetch_fields (snd acc)"
  by (simp add: parse_json_channel_def Let_def fetch_fields_def [of "_\<lparr>stations := _, coNum := _\<rparr>"]
        fetch_fields_def [of "snd acc"])

lemma fetch_fields_channels [simp]:
  "fetch_fields (snd (fold (parse_json_channel cfg env) channels acc)) = fetch_fields (snd acc)"
  by (induction channels arbitrary: acc) simp_all

lemma fetch_fields_parse_json [simp]:
  "fetch_fields (parse_json cfg env ms st) = fetch_fields st"
  by (simp add: parse_json_def split: option.splits)

lemma parse_json_keeps:
  "cache (parse_json cfg env ms st) = cache st"
  "sent (parse_json cfg env ms st) = sent st"
  "exp (parse_json cfg env ms st) = exp st"
  using fetch_fields_parse_json [of cfg env ms st] by (simp_all add: fetch_fields_def)

lemma tba_upd_program [simp]: "tba (upd_program cp f st) = tba st"
  by (simp add: upd_program_def)

lemma tba_set_airing [simp]: "tba (set_airing cs t a st) = tba st"
  by (simp add: set_airing_def)

lemma tba_upd_airing [simp]: "tba (upd_airing cs t f st) = tba st"
  by (simp add: upd_airing_def split: option.splits)

lemma tba_set_original_air_date [simp]: "tba (set_original_air_date cp cs sch st) = tba st"
  by (simp add: set_original_air_date_def)

lemma tba_event_flags [simp]: "tba (event_flags cp cs t e st) = tba st"
  by (simp add: event_flags_def Let_def)

lemma tba_post_json_overview [simp]: "tba (post_json_overview cfg env cp sid st) = tba st"
  by (simp add: post_json_overview_def split: option.splits)

lemma tba_parse_json_event:
  "tba (parse_json_event cfg env cs e st) = (tba st \<or> (e_id e \<noteq> [] \<and> sTBA env (e_title e)))"
  by (simp add: parse_json_event_def Let_def)

lemma tba_events:
  "tba (fold (parse_json_event cfg env cs) es st) =
     (tba st \<or> list_ex (\<lambda>e. sTBA env (e_title e)) (filter (\<lambda>e. e_id e \<noteq> []) es))"
  by (induction es arbitrary: st) (auto simp: tba_parse_json_event)

lemma parse_json_channel_skipped:
  assumes "c_channelId s = [] \<or> (\<not> allChan cfg \<and> zapFavorites cfg \<noteq> []
            \<and> c_channelId s \<notin> set (zapFavorites cfg))
            \<or> (\<not> allChan cfg \<and> zapFavorites cfg \<noteq> [] \<and> opt8 cfg \<and> c_channelId s \<in> set zs)"
  shows "parse_json_channel cfg env s (zs, st) = (zs, st)"
  using assms by (auto simp: parse_json_channel_def Let_def)

lemma parse_json_channel_kept:
  assumes "\<not> (c_channelId s = [] \<or> (\<not> allChan cfg \<and> zapFavorites cfg \<noteq> []
            \<and> c_channelId s \<notin> set (zapFavorites cfg))
            \<or> (\<not> allChan cfg \<and> zapFavorites cfg \<noteq> [] \<and> opt8 cfg \<and> c_channelId s \<in> set zs))"
  shows "\<exists>st1. tba st1 = tba st \<and>
           parse_json_channel cfg env s (zs, st) =
             (if \<not> allChan cfg \<and> zapFavorites cfg \<noteq> [] \<and> opt8 cfg
              then c_channelId s # zs else zs,
              fold (parse_json_event cfg env (c_channelNo s @ ''.'' @ c_channelId s))
                (c_events s) st1)"
proof (cases "map_of (stations st) (c_channelNo s @ ''.'' @ c_channelId s) = None")
  case True
  show ?thesis
    by (rule exI [of _ "st\<lparr>stations := AList.update (c_channelNo s @ ''.'' @ c_channelId s)
                                    \<lparr>stnNum = c_channelId s, name = c_callSign s,
                                     number = lstrip0 (c_channelNo s),
                                     order = (if retainOrder cfg then OrderNum (coNum st)
                                              else OrderName (lstrip0 (c_channelNo s)))\<rparr>
                                    (stations st),
                               coNum := coNum st + 1\<rparr>"])
       (use assms True in \<open>auto simp: parse_json_channel_def Let_def\<close>)
next
  case False
  show ?thesis
    by (rule exI [of _ st]) (use assms False in \<open>auto simp: parse_json_channel_def Let_def\<close>)
qed

lemma tba_channels:
  "tba (snd (fold (parse_json_channel cfg env) channels (zs, st))) =
     (tba st \<or> list_ex (\<lambda>e. sTBA env (e_title e)) (processed_events cfg zs channels))"
proof (induction channels arbitrary: zs st)
  case Nil
  then show ?case by simp
next
  case (Cons s ss)
  show ?case
  proof (cases "c_channelId s = [] \<or> (\<not> allChan cfg \<and> zapFavorites cfg \<noteq> []
            \<and> c_channelId s \<notin> set (zapFavorites cfg))
            \<or> (\<not> allChan cfg \<and> zapFavorites cfg \<noteq> [] \<and> opt8 cfg \<and> c_channelId s \<in> set zs)")
    case True
    have p: "processed_events cfg zs (s # ss) = processed_events cfg zs ss"
      using True by (auto simp: Let_def)
    show ?thesis
      by (simp only: fold_simps parse_json_channel_skipped [OF True] Cons.IH p)
  next
    case False
    from parse_json_channel_kept [OF False, where env = env and st = st]
    obtain st1 where t: "tba st1 = tba st"
      and step: "parse_json_channel cfg env s (zs, st) =
             (if \<not> allChan cfg \<and> zapFavorites cfg \<noteq> [] \<and> opt8 cfg
              then c_channelId s # zs else zs,
              fold (parse_json_event cfg env (c_channelNo s @ ''.'' @ c_channelId s))
                (c_events s) st1)"
      by blast
    have p: "processed_events cfg zs (s # ss) =
        filter (\<lambda>e. e_id e \<noteq> []) (c_events s)
        @ processed_events cfg (if \<not> allChan cfg \<and> zapFavorites cfg \<noteq> [] \<and> opt8 cfg
              then c_channelId s # zs else zs) ss"
      using False by (auto simp: Let_def)
    show ?thesis
      by (simp only: fold_simps step Cons.IH p tba_events t list_ex_append disj_assoc)
  qed
qed

lemma tba_parse_json:
  "tba (parse_json cfg env ms st) = (tba st \<or> placeholder_titles cfg env (cache st ms))"
  by (simp add: parse_json_def placeholder_titles_def tba_channels split: option.splits)

subsection \<open>The fetch decision\<close>

lemma get_url_effect:
  "\<exists>s t b. snd (get_url cfg env ms rc st) = st\<lparr>sent := sent st @ s, treq := t, tb := b\<rparr>
           \<and> set s \<subseteq> {ms} \<and> (rc < retries cfg \<longrightarrow> s \<noteq> [])"
proof (induction "nat (retries cfg - rc)" arbitrary: rc st)
  case 0
  then have "get_url cfg env ms rc st = ([], st)"
    by (subst get_url.simps) simp
  then show ?case
    using 0 by (intro exI [of _ "[]"] exI [of _ "treq st"] exI [of _ "tb st"]) simp
next
  case (Suc n)
  then have lt: "rc < retries cfg" and n: "n = nat (retries cfg - (rc + 1))"
    by linarith+
  define st1 where "st1 = st\<lparr>sent := sent st @ [ms]\<rparr>"
  have again: "\<exists>s t b. snd (get_url cfg env ms (rc + 1) st') = st\<lparr>sent := sent st @ s, treq := t, tb := b\<rparr>
           \<and> set s \<subseteq> {ms} \<and> s \<noteq> []"
    if "st' = st1\<lparr>treq := t', tb := b'\<rparr>" for st' t' b'
  proof -
    from Suc.hyps(1) [OF n, of st'] obtain s t b where
      h: "snd (get_url cfg env ms (rc + 1) st') = st'\<lparr>sent := sent st' @ s, treq := t, tb := b\<rparr>"
      and sub: "set s \<subseteq> {ms}"
      by blast
    show ?thesis
      by (intro exI [of _ "ms # s"] exI [of _ t] exI [of _ b])
         (use h sub that in \<open>simp add: st1_def\<close>)
  qed
  show ?case
  proof (cases "http_get env (length (sent st))")
    case ConnectionError
    then have eq: "get_url cfg env ms rc st = get_url cfg env ms (rc + 1) st1"
      using lt by (subst get_url.simps) (simp add: st1_def)
    have "st1 = st1\<lparr>treq := treq st1, tb := tb st1\<rparr>" by simp
    from again [OF this] show ?thesis by (simp add: eq lt)
  next
    case (Response status_code content)
    define st2 where "st2 = st1\<lparr>treq := treq st1 + 1, tb := tb st1 + length content\<rparr>"
    show ?thesis
    proof (cases "(status_code = 200 \<and> content \<noteq> [])
                  \<or> (status_code = 500 \<and> contains ''Could not load details'' content)")
      case True
      then have "snd (get_url cfg env ms rc st) = st2"
        using lt Response by (subst get_url.simps) (auto simp: st1_def st2_def Let_def)
      then show ?thesis
        by (intro exI [of _ "[ms]"] exI [of _ "treq st + 1"] exI [of _ "tb st + length content"])
           (simp add: st2_def st1_def)
    next
      case False
      then have eq: "get_url cfg env ms rc st = get_url cfg env ms (rc + 1) st2"
        using lt Response by (subst get_url.simps) (auto simp: st1_def st2_def Let_def)
      from again [OF st2_def] show ?thesis by (simp add: eq lt)
    qed
  qed
qed

lemma get_url_keeps:
  "programs (snd (get_url cfg env ms rc st)) = programs st"
  "stations (snd (get_url cfg env ms rc st)) = stations st"
  "schedule (snd (get_url cfg env ms rc st)) = schedule st"
  "cache (snd (get_url cfg env ms rc st)) = cache st"
  "tba (snd (get_url cfg env ms rc st)) = tba st"
  "exp (snd (get_url cfg env ms rc st)) = exp st"
  "XTVD_startTime (snd (get_url cfg env ms rc st)) = XTVD_startTime st"
  "XTVD_endTime (snd (get_url cfg env ms rc st)) = XTVD_endTime st"
  using get_url_effect [of cfg env ms rc st] by auto

lemma get_url_exhausted:
  assumes "\<And>n. http_get env n = ConnectionError"
  shows "fst (get_url cfg env ms rc st) = []"
proof (induction "nat (retries cfg - rc)" arbitrary: rc st)
  case 0
  then show ?case by (subst get_url.simps) simp
next
  case (Suc n)
  then have lt: "rc < retries cfg" and n: "n = nat (retries cfg - (rc + 1))"
    by linarith+
  have "get_url cfg env ms rc st = get_url cfg env ms (rc + 1) (st\<lparr>sent := sent st @ [ms]\<rparr>)"
    using lt assms by (subst get_url.simps) simp
  then show ?case using Suc.hyps(1) [OF n] by simp
qed

lemma xtvd_times_keeps [simp]:
  "programs (xtvd_times max_count cnt ms st) = programs st"
  "stations (xtvd_times max_count cnt ms st) = stations st"
  "schedule (xtvd_times max_count cnt ms st) = schedule st"
  "cache (xtvd_times max_count cnt ms st) = cache st"
  "sent (xtvd_times max_count cnt ms st) = sent st"
  "tba (xtvd_times max_count cnt ms st) = tba st"
  "exp (xtvd_times max_count cnt ms st) = exp st"
  by (simp_all add: xtvd_times_def)

lemma after_parse_keeps [simp]:
  "sent (after_parse cfg ms st) = sent st"
  "programs (after_parse cfg ms st) = programs st"
  "stations (after_parse cfg ms st) = stations st"
  "schedule (after_parse cfg ms st) = schedule st"
  "tba (after_parse cfg ms st) = False"
  "exp (after_parse cfg ms st) = False"
  by (simp_all add: after_parse_def Let_def)

lemma cache_after_parse:
  "cache (after_parse cfg ms st) ms =
     (if (noTbaCache cfg \<and> tba st) \<or> exp st then None else cache st ms)"
  by (simp add: after_parse_def Let_def)

lemma bucket_cached:
  assumes "\<not> must_fetch cfg (cache st ms \<noteq> None) (cnt div (24 div gridHours) + 1)"
  shows "bucket cfg env max_count cnt ms st =
           Next (after_parse cfg ms (parse_json cfg env ms (xtvd_times max_count cnt ms st)))"
  using assms by (simp add: bucket_def Let_def)

lemma bucket_fetch:
  assumes "must_fetch cfg (cache st ms \<noteq> None) (cnt div (24 div gridHours) + 1)"
  shows "bucket cfg env max_count cnt ms st =
           (let r = get_url cfg env ms 0 (xtvd_times max_count cnt ms st) in
            if fst r = [] then Break (snd r)
            else Next (after_parse cfg ms
                         (parse_json cfg env ms ((snd r)\<lparr>cache := (cache (snd r))(ms \<mapsto> fst r)\<rparr>))))"
  using assms by (simp add: bucket_def Let_def split: prod.splits)

text \<open>
  Claim C4. After \<^verbatim>\<open>process_options\<close> has made the threshold relative to the end, the
  body of the loop fetches the bucket of index \<open>cnt\<close>, whose day is \<open>cnt div 8 + 1\<close>,
  exactly when the cache file is absent, or the day exceeds \<open>days - ncdays\<close>, or the day
  is at most \<open>ncsdays\<close>, or the day is \<open>ncmday\<close>. In every other case the body parses the
  cached file and makes no call of \<^verbatim>\<open>session.get\<close>; when a fetch is forced and
  \<open>retries\<close> is positive, the grid request of this bucket is sent at least once.
\<close>

theorem C4_fetch_decision:
  "(must_fetch (process_options cfg) (cache st ms \<noteq> None) (cnt div (24 div gridHours) + 1)
      \<longleftrightarrow> cache st ms = None \<or> cnt div 8 + 1 > days cfg - ncdays cfg
          \<or> cnt div 8 + 1 \<le> ncsdays cfg \<or> cnt div 8 + 1 = ncmday cfg)
   \<and> (\<not> must_fetch (process_options cfg) (cache st ms \<noteq> None) (cnt div (24 div gridHours) + 1)
        \<longrightarrow> bucket (process_options cfg) env max_count cnt ms st
              = Next (after_parse (process_options cfg) ms
                        (parse_json (process_options cfg) env ms (xtvd_times max_count cnt ms st)))
          \<and> cache (xtvd_times max_count cnt ms st) ms = cache st ms
          \<and> sent (after_parse (process_options cfg) ms
                     (parse_json (process_options cfg) env ms (xtvd_times max_count cnt ms st)))
              = sent st)
   \<and> (must_fetch (process_options cfg) (cache st ms \<noteq> None) (cnt div (24 div gridHours) + 1)
        \<and> 0 < retries cfg
        \<longrightarrow> (\<exists>st' s. (bucket (process_options cfg) env max_count cnt ms st = Break st'
                       \<or> bucket (process_options cfg) env max_count cnt ms st = Next st')
                    \<and> sent st' = sent st @ ms # s))"
proof (intro conjI impI)
  show "must_fetch (process_options cfg) (cache st ms \<noteq> None) (cnt div (24 div gridHours) + 1)
      \<longleftrightarrow> cache st ms = None \<or> cnt div 8 + 1 > days cfg - ncdays cfg
          \<or> cnt div 8 + 1 \<le> ncsdays cfg \<or> cnt div 8 + 1 = ncmday cfg"
    by (simp add: must_fetch_def process_options_def gridHours_def)
next
  assume "\<not> must_fetch (process_options cfg) (cache st ms \<noteq> None) (cnt div (24 div gridHours) + 1)"
  then show "bucket (process_options cfg) env max_count cnt ms st
              = Next (after_parse (process_options cfg) ms
                        (parse_json (process_options cfg) env ms (xtvd_times max_count cnt ms st)))"
    by (rule bucket_cached)
next
  show "cache (xtvd_times max_count cnt ms st) ms = cache st ms" by simp
next
  show "sent (after_parse (process_options cfg) ms
                     (parse_json (process_options cfg) env ms (xtvd_times max_count cnt ms st)))
              = sent st"
    by (simp add: parse_json_keeps)
next
  assume h: "must_fetch (process_options cfg) (cache st ms \<noteq> None) (cnt div (24 div gridHours) + 1)
        \<and> 0 < retries cfg"
  define r where "r = get_url (process_options cfg) env ms 0 (xtvd_times max_count cnt ms st)"
  have pos: "0 < retries (process_options cfg)"
    using h by (simp add: process_options_def)
  from get_url_effect [of "process_options cfg" env ms 0 "xtvd_times max_count cnt ms st"] pos
  obtain s0 where s0: "sent (snd r) = sent st @ s0" "set s0 \<subseteq> {ms}" "s0 \<noteq> []"
    by (auto simp: r_def)
  then obtain s where s: "s0 = ms # s" by (cases s0) auto
  have b: "bucket (process_options cfg) env max_count cnt ms st =
      (if fst r = [] then Break (snd r)
       else Next (after_parse (process_options cfg) ms
                    (parse_json (process_options cfg) env ms
                       ((snd r)\<lparr>cache := (cache (snd r))(ms \<mapsto> fst r)\<rparr>))))"
    using h by (simp add: bucket_fetch r_def Let_def)
  show "\<exists>st' s. (bucket (process_options cfg) env max_count cnt ms st = Break st'
                       \<or> bucket (process_options cfg) env max_count cnt ms st = Next st')
                    \<and> sent st' = sent st @ ms # s"
  proof (cases "fst r = []")
    case True
    then show ?thesis using b s0 s by auto
  next
    case False
    have "sent (after_parse (process_options cfg) ms
                    (parse_json (process_options cfg) env ms
                       ((snd r)\<lparr>cache := (cache (snd r))(ms \<mapsto> fst r)\<rparr>))) = sent st @ ms # s"
      using s0 s by (simp add: parse_json_keeps)
    then show ?thesis using b False by auto
  qed
qed

text \<open>C4 at the first bucket of a run of seven days: with the cache file there, and with
  an empty cache directory.\<close>

theorem C4_witness:
  "\<not> must_fetch (process_options default_config) (cache (cached_state ''grid-a'') 0 \<noteq> None)
        (0 div (24 div gridHours) + 1)
   \<and> bucket (process_options default_config) offline_env 56 0 0 (cached_state ''grid-a'')
       = Next (after_parse (process_options default_config) 0
                 (parse_json (process_options default_config) offline_env 0
                    (xtvd_times 56 0 0 (cached_state ''grid-a''))))
   \<and> sent (after_parse (process_options default_config) 0
                 (parse_json (process_options default_config) offline_env 0
                    (xtvd_times 56 0 0 (cached_state ''grid-a'')))) = []
   \<and> must_fetch (process_options default_config) (cache init_state 0 \<noteq> None)
        (0 div (24 div gridHours) + 1)
   \<and> (\<exists>st' s. (bucket (process_options default_config) offline_env 56 0 0 init_state = Break st'
                 \<or> bucket (process_options default_config) offline_env 56 0 0 init_state = Next st')
               \<and> sent st' = 0 # s)"
proof -
  have a: "\<not> must_fetch (process_options default_config) (cache (cached_state ''grid-a'') 0 \<noteq> None)
        (0 div (24 div gridHours) + 1)"
    by (simp add: must_fetch_def process_options_def default_config_def cached_state_def
          init_state_def gridHours_def)
  have b: "must_fetch (process_options default_config) (cache init_state 0 \<noteq> None)
        (0 div (24 div gridHours) + 1) \<and> 0 < retries default_config"
    by (simp add: must_fetch_def init_state_def default_config_def)
  have c: "sent (cached_state ''grid-a'') = []" "sent init_state = []"
    by (simp_all add: cached_state_def init_state_def)
  show ?thesis
    using a b c
      C4_fetch_decision [of default_config "cached_state ''grid-a''" 0 0 offline_env 56]
      C4_fetch_decision [of default_config init_state 0 0 offline_env 56]
    by simp
qed

subsection \<open>Eviction of a cache file after the parse\<close>

lemma not_halted_Next: "\<not> halted c \<Longrightarrow> c = Next (loop_state c)"
  by (cases c) (simp_all add: halted_def loop_state_def)

text \<open>
  Claim C5, as amended. After a grid payload has been parsed, its cache file is deleted
  exactly when the no-placeholder-cache option is set and the placeholder flag is up, that
  is when at least one title among the parsed events matches the placeholder pattern, or
  when the expired flag is up. The parse never changes the expired flag, and both flags are
  down after every bucket, so in the fetch loop a bucket that starts with both flags down
  leaves the file it parsed (fetched or cached) deleted exactly when the option is set and
  some parsed title matches.
\<close>

theorem C5_cache_eviction:
  "cache (after_parse cfg ms (parse_json cfg env ms st)) ms =
     (if (noTbaCache cfg \<and> (tba st \<or> placeholder_titles cfg env (cache st ms))) \<or> exp st
      then None else cache st ms)
   \<and> exp (parse_json cfg env ms st) = exp st
   \<and> (\<not> tba st \<and> \<not> exp st \<and> bucket cfg env max_count cnt ms st = Next st' \<longrightarrow>
        \<not> tba st' \<and> \<not> exp st'
        \<and> (\<exists>content.
              (if must_fetch cfg (cache st ms \<noteq> None) (cnt div (24 div gridHours) + 1)
               then content = fst (get_url cfg env ms 0 (xtvd_times max_count cnt ms st))
               else cache st ms = Some content)
              \<and> cache st' ms =
                  (if noTbaCache cfg \<and> placeholder_titles cfg env (Some content)
                   then None else Some content)))"
proof (intro conjI impI)
  show first: "cache (after_parse cfg ms (parse_json cfg env ms st)) ms =
     (if (noTbaCache cfg \<and> (tba st \<or> placeholder_titles cfg env (cache st ms))) \<or> exp st
      then None else cache st ms)" for st
    by (auto simp: cache_after_parse tba_parse_json parse_json_keeps)
  show "exp (parse_json cfg env ms st) = exp st"
    by (simp add: parse_json_keeps)
  assume h: "\<not> tba st \<and> \<not> exp st \<and> bucket cfg env max_count cnt ms st = Next st'"
  show "\<not> tba st'" "\<not> exp st'"
    using h by (auto simp: bucket_def Let_def split: if_splits prod.splits)
  show "\<exists>content.
              (if must_fetch cfg (cache st ms \<noteq> None) (cnt div (24 div gridHours) + 1)
               then content = fst (get_url cfg env ms 0 (xtvd_times max_count cnt ms st))
               else cache st ms = Some content)
              \<and> cache st' ms =
                  (if noTbaCache cfg \<and> placeholder_titles cfg env (Some content)
                   then None else Some content)"
  proof (cases "must_fetch cfg (cache st ms \<noteq> None) (cnt div (24 div gridHours) + 1)")
    case True
    define r where "r = get_url cfg env ms 0 (xtvd_times max_count cnt ms st)"
    define s2 where "s2 = (snd r)\<lparr>cache := (cache (snd r))(ms \<mapsto> fst r)\<rparr>"
    have st': "st' = after_parse cfg ms (parse_json cfg env ms s2)"
      using h True by (auto simp: bucket_fetch Let_def r_def s2_def split: if_splits)
    have f: "\<not> tba s2" "\<not> exp s2" "cache s2 ms = Some (fst r)"
      using h by (simp_all add: s2_def r_def get_url_keeps)
    have "cache st' ms =
            (if noTbaCache cfg \<and> placeholder_titles cfg env (Some (fst r))
             then None else Some (fst r))"
      unfolding st' first [of s2] using f by simp
    then show ?thesis using True by (auto simp: r_def)
  next
    case False
    then obtain content where c: "cache st ms = Some content"
      by (auto simp: must_fetch_def)
    define s1 where "s1 = xtvd_times max_count cnt ms st"
    have st': "st' = after_parse cfg ms (parse_json cfg env ms s1)"
      using h False by (simp add: bucket_cached s1_def)
    have f: "\<not> tba s1" "\<not> exp s1" "cache s1 ms = Some content"
      using h c by (simp_all add: s1_def)
    have "cache st' ms =
            (if noTbaCache cfg \<and> placeholder_titles cfg env (Some content)
             then None else Some content)"
      unfolding st' first [of s1] using f by simp
    then show ?thesis using False c by auto
  qed
qed

text \<open>The amended statement of C5 at a payload with a placeholder title, at one without,
  and with the option off.\<close>

theorem C5_witness:
  "cache (after_parse (default_config\<lparr>noTbaCache := True\<rparr>) 0
            (parse_json (default_config\<lparr>noTbaCache := True\<rparr>) grid_env 0
               (cached_state ''grid-a''))) 0 = None
   \<and> cache (after_parse (default_config\<lparr>noTbaCache := True\<rparr>) 0
            (parse_json (default_config\<lparr>noTbaCache := True\<rparr>) grid_env 0
               (cached_state ''grid-b''))) 0 = Some ''grid-b''
   \<and> cache (after_parse default_config 0
            (parse_json default_config grid_env 0 (cached_state ''grid-a''))) 0 = Some ''grid-a''
   \<and> \<not> tba (loop_state (bucket (default_config\<lparr>noTbaCache := True\<rparr>) grid_env 56 0 0
                          (cached_state ''grid-a'')))
   \<and> \<not> exp (loop_state (bucket (default_config\<lparr>noTbaCache := True\<rparr>) grid_env 56 0 0
                          (cached_state ''grid-a'')))"
proof -
  have p: "placeholder_titles (default_config\<lparr>noTbaCache := True\<rparr>) grid_env (Some ''grid-a'')"
    "\<not> placeholder_titles (default_config\<lparr>noTbaCache := True\<rparr>) grid_env (Some ''grid-b'')"
    by code_simp+
  have c: "cache (cached_state s) 0 = Some s" "\<not> tba (cached_state s)" "\<not> exp (cached_state s)"
    for s by (simp_all add: cached_state_def init_state_def)
  have n: "\<not> halted (bucket (default_config\<lparr>noTbaCache := True\<rparr>) grid_env 56 0 0
                          (cached_state ''grid-a''))"
    by code_simp
  have o: "noTbaCache (default_config\<lparr>noTbaCache := True\<rparr>)" "\<not> noTbaCache default_config"
    by (simp_all add: default_config_def)
  show ?thesis
    using p c o
      C5_cache_eviction [of "default_config\<lparr>noTbaCache := True\<rparr>" 0 grid_env
        "cached_state ''grid-a''" 56 0
        "loop_state (bucket (default_config\<lparr>noTbaCache := True\<rparr>) grid_env 56 0 0
                          (cached_state ''grid-a''))"]
      C5_cache_eviction [of "default_config\<lparr>noTbaCache := True\<rparr>" 0 grid_env
        "cached_state ''grid-b''" 56 0 init_state]
      C5_cache_eviction [of default_config 0 grid_env "cached_state ''grid-a''" 56 0 init_state]
      not_halted_Next [OF n]
    by simp
qed

text \<open>Claim C5 as stated fails: of the two titles of the payload only \<^verbatim>\<open>TBA\<close> matches the
  placeholder pattern, the data is not flagged as expired, and the fetched file is
  deleted.\<close>

theorem C5_counterexample:
  "default_sTBA ''TBA'' \<and> \<not> default_sTBA ''Evening News''
   \<and> map e_title (processed_events (default_config\<lparr>noTbaCache := True\<rparr>) [] [two_events_channel])
       = [''TBA'', ''Evening News'']
   \<and> \<not> halted (bucket (process_options (default_config\<lparr>noTbaCache := True\<rparr>)) grid_env 56 0 0
                  init_state)
   \<and> cache (loop_state (bucket (process_options (default_config\<lparr>noTbaCache := True\<rparr>))
                           grid_env 56 0 0 init_state)) 0 = None"
  by code_simp

subsection \<open>A fetch that exhausts its retries\<close>

text \<open>A bucket whose fetch returns the failure value ends the loop: the result is the state
  the fetch leaves, in which programs, stations, schedule and cache directory are those of
  the buckets done before, and only requests for this bucket have been added.\<close>

lemma process_loop_next:
  assumes "cnt < max_count" and "bucket cfg env max_count cnt ms st = Next st'"
  shows "process_loop cfg env max_count cnt ms st =
           process_loop cfg env max_count (cnt + 1) (ms + gridHours * 3600 * 1000) st'"
  using assms by (subst process_loop.simps) simp

lemma process_loop_halt:
  assumes "cnt < max_count"
    and "must_fetch cfg (cache st ms \<noteq> None) (cnt div (24 div gridHours) + 1)"
    and "fst (get_url cfg env ms 0 (xtvd_times max_count cnt ms st)) = []"
  shows "\<exists>s. process_loop cfg env max_count cnt ms st
               = snd (get_url cfg env ms 0 (xtvd_times max_count cnt ms st))
             \<and> programs (process_loop cfg env max_count cnt ms st) = programs st
             \<and> stations (process_loop cfg env max_count cnt ms st) = stations st
             \<and> schedule (process_loop cfg env max_count cnt ms st) = schedule st
             \<and> cache (process_loop cfg env max_count cnt ms st) = cache st
             \<and> sent (process_loop cfg env max_count cnt ms st) = sent st @ s \<and> set s \<subseteq> {ms}"
proof -
  define r where "r = get_url cfg env ms 0 (xtvd_times max_count cnt ms st)"
  have b: "bucket cfg env max_count cnt ms st = Break (snd r)"
    using assms(2,3) by (simp add: bucket_fetch r_def Let_def)
  have p: "process_loop cfg env max_count cnt ms st = snd r"
    using assms(1) b by (subst process_loop.simps) simp
  from get_url_effect [of cfg env ms 0 "xtvd_times max_count cnt ms st"]
  obtain s where "sent (snd r) = sent st @ s" "set s \<subseteq> {ms}"
    by (auto simp: r_def)
  then show ?thesis
    unfolding p by (intro exI [of _ s]) (simp add: r_def get_url_keeps)
qed

text \<open>
  Claim C7 on the code. The server answers the first grid request and fails from then on,
  so the second bucket exhausts the three retries and the loop halts. In the XMLTV mode
  the document is written from what the first bucket gave. In the XTVD mode the run is
  aborted: \<^verbatim>\<open>XTVD_endTime\<close> is set only in the last iteration of the loop, it still is
  \<^verbatim>\<open>None\<close>, and \<^verbatim>\<open>print_header_xtvd\<close> raises \<^verbatim>\<open>TypeError\<close> before anything of the
  accumulated data is written; the same happens when the first bucket fails.
\<close>

theorem C7_retry_exhaustion_xtvd_aborts:
  "sent (process_data (process_options default_config) grid_env init_state)
     = [0, 10800000, 10800000, 10800000]
   \<and> run default_config grid_env Map.empty =
       Written \<lparr>doc_header = None, doc_channels = [''I7.10001.gracenote.com''],
                doc_programmes = [\<lparr>pr_start = 100000, pr_stop = 300000,
                   pr_channel = ''I7.10001.gracenote.com'', pr_program = ''EP000000010001'',
                   pr_categories = []\<rparr>], doc_schedules = []\<rparr>
   \<and> run (default_config\<lparr>outputXTVD := True\<rparr>) grid_env Map.empty
       = Aborted TypeError empty_document
   \<and> run (default_config\<lparr>outputXTVD := True\<rparr>) offline_env Map.empty
       = Aborted TypeError empty_document"
  by code_simp

subsection \<open>End times in the XMLTV renderer\<close>

text \<open>The airings that \<^verbatim>\<open>parse_json\<close> stores have the key \<^verbatim>\<open>endTime\<close> and never the key
  \<^verbatim>\<open>endtime\<close>; so it is after every run of the fetch loop. For such an airing at the last
  index the loop of \<^verbatim>\<open>print_programmes\<close> deletes the key and writes nothing.\<close>

lemma values_update: "snd ` set (AList.update k v al) \<subseteq> insert v (snd ` set al)"
  by (induction al) auto

lemma no_endtime_schedule: "schedule st' = schedule st \<Longrightarrow> no_endtime st' = no_endtime st"
  by (simp add: no_endtime_def)

lemma station_airings_endtime:
  assumes "no_endtime st" and "a \<in> snd ` set (station_airings st cs)"
  shows "a_endtime a = None"
proof (cases "map_of (schedule st) cs")
  case None
  then show ?thesis using assms(2) by (simp add: station_airings_def)
next
  case (Some d)
  then have "d \<in> snd ` set (schedule st)"
    using map_of_SomeD [OF Some] by force
  then show ?thesis using assms Some by (auto simp: station_airings_def no_endtime_def)
qed

lemma no_endtime_set_airing:
  assumes "no_endtime st" and "a_endtime a = None"
  shows "no_endtime (set_airing cs t a st)"
  unfolding no_endtime_def
proof (intro ballI)
  fix d b
  assume d: "d \<in> snd ` set (schedule (set_airing cs t a st))" and b: "b \<in> snd ` set d"
  have s: "schedule (set_airing cs t a st)
             = AList.update cs (AList.update t a (station_airings st cs)) (schedule st)"
    by (simp add: set_airing_def)
  have "d \<in> insert (AList.update t a (station_airings st cs)) (snd ` set (schedule st))"
    using d values_update [of cs "AList.update t a (station_airings st cs)" "schedule st"]
    unfolding s by (rule subsetD [rotated])
  then consider "d = AList.update t a (station_airings st cs)" | "d \<in> snd ` set (schedule st)"
    by blast
  then show "a_endtime b = None"
  proof cases
    case 1
    have "b \<in> insert a (snd ` set (station_airings st cs))"
      using b values_update [of t a "station_airings st cs"]
      unfolding 1 by (rule subsetD [rotated])
    then consider "b = a" | "b \<in> snd ` set (station_airings st cs)"
      by blast
    then show ?thesis
    proof cases
      case 1
      then show ?thesis using assms(2) by simp
    next
      case 2
      show ?thesis using assms(1) 2 by (rule station_airings_endtime)
    qed
  next
    case 2
    from assms(1) have "\<forall>d \<in> snd ` set (schedule st). \<forall>a \<in> snd ` set d. a_endtime a = None"
      by (simp only: no_endtime_def)
    from bspec [OF bspec [OF this 2] b] show ?thesis .
  qed
qed

lemma no_endtime_upd_airing:
  assumes "no_endtime st" and "\<And>a. a_endtime (f a) = a_endtime a"
  shows "no_endtime (upd_airing cs t f st)"
proof (cases "map_of (station_airings st cs) t")
  case None
  then show ?thesis using assms(1) by (simp add: upd_airing_def)
next
  case (Some a)
  then have "a \<in> snd ` set (station_airings st cs)"
    using map_of_SomeD [OF Some] by force
  then have "a_endtime (f a) = None"
    using assms station_airings_endtime by simp
  then show ?thesis
    using Some assms(1) by (simp add: upd_airing_def no_endtime_set_airing)
qed

lemma no_endtime_set_original_air_date:
  "no_endtime (set_original_air_date cp cs sch st) = no_endtime st"
  by (rule no_endtime_schedule) simp

lemma no_endtime_event_flags:
  assumes "no_endtime st"
  shows "no_endtime (event_flags cp cs t e st)"
proof -
  define s1 where "s1 = (if ''CC'' \<in> set (e_tags e)
                then upd_airing cs t (\<lambda>a. a\<lparr>a_cc := True\<rparr>) st else st)"
  define s2 where "s2 = (if ''New'' \<in> set (e_flag e)
                then set_original_air_date cp cs t
                       (upd_airing cs t (\<lambda>a. a\<lparr>a_new := True\<rparr>) s1)
                else s1)"
  define s3 where "s3 = (if ''Live'' \<in> set (e_flag e)
                then set_original_air_date cp cs t
                       (upd_airing cs t (\<lambda>a. a\<lparr>a_live := True\<rparr>) s2)
                else s2)"
  define s4 where "s4 = (if ''Premiere'' \<in> set (e_flag e)
                then upd_airing cs t (\<lambda>a. a\<lparr>a_premiere := True\<rparr>) s3 else s3)"
  have 1: "no_endtime s1"
    using assms by (simp add: s1_def no_endtime_upd_airing)
  have 2: "no_endtime s2"
    using 1 by (simp add: s2_def no_endtime_upd_airing no_endtime_set_original_air_date)
  have 3: "no_endtime s3"
    using 2 by (simp add: s3_def no_endtime_upd_airing no_endtime_set_original_air_date)
  have 4: "no_endtime s4"
    using 3 by (simp add: s4_def no_endtime_upd_airing)
  have "event_flags cp cs t e st = (if ''Finale'' \<in> set (e_flag e)
         then upd_airing cs t (\<lambda>a. a\<lparr>a_finale := True\<rparr>) s4 else s4)"
    by (simp add: event_flags_def Let_def s1_def s2_def s3_def s4_def)
  then show ?thesis using 4 by (simp add: no_endtime_upd_airing)
qed

lemma no_endtime_parse_json_event:
  assumes "no_endtime st"
  shows "no_endtime (parse_json_event cfg env cs e st)"
proof (cases "e_id e = []")
  case True
  then show ?thesis using assms by (simp add: parse_json_event_def)
next
  case False
  define t where "t = str2time1 (strptime1 env) (e_startTime e) * 1000"
  define s1 where "s1 = upd_program (e_id e) (basic_program_info cfg e)
                    (st\<lparr>tba := (tba st \<or> sTBA env (e_title e))\<rparr>)"
  define s2 where "s2 = set_airing cs t
                    \<lparr>a_time = t,
                     a_endTime = Some (str2time1 (strptime1 env) (e_endTime e) * 1000),
                     a_endtime = None, a_program = e_id e, a_station = cs, a_cc = False,
                     a_new = False, a_live = False, a_premiere = False, a_finale = False,
                     a_quality = False\<rparr> s1"
  define s3 where "s3 = upd_program (e_id e) (event_genres e) s2"
  define s4 where "s4 = (if e_rating e \<noteq> []
      then upd_program (e_id e) (\<lambda>p. p\<lparr>rating := Some (e_rating e)\<rparr>) s3 else s3)"
  define s5 where "s5 = event_flags (e_id e) cs t e s4"
  define s6 where "s6 = (if seriesCategory cfg \<and> \<not> startswith (e_id e) ''MV''
                   then upd_program (e_id e) series_category s5 else s5)"
  have ev: "parse_json_event cfg env cs e st =
      (if includeDetails cfg \<and> \<not> e_isGeneric e
       then post_json_overview cfg env (e_id e) (e_seriesId e) s6 else s6)"
    using False
    by (simp add: parse_json_event_def Let_def s1_def s2_def s3_def s4_def s5_def s6_def t_def)
  have 1: "no_endtime s1"
    using assms by (simp add: s1_def no_endtime_def)
  have 2: "no_endtime s2"
    using 1 by (simp add: s2_def no_endtime_set_airing)
  have 4: "no_endtime s4"
    using 2 by (simp add: s4_def s3_def no_endtime_def)
  have 5: "no_endtime s5"
    using 4 by (simp add: s5_def no_endtime_event_flags)
  have 6: "no_endtime s6"
    using 5 by (simp add: s6_def no_endtime_def)
  show ?thesis using 6 by (simp add: ev no_endtime_def)
qed

lemma no_endtime_events:
  "no_endtime st \<Longrightarrow> no_endtime (fold (parse_json_event cfg env cs) es st)"
  by (induction es arbitrary: st) (simp_all add: no_endtime_parse_json_event)

lemma no_endtime_parse_json_channel:
  assumes "no_endtime (snd acc)"
  shows "no_endtime (snd (parse_json_channel cfg env s acc))"
proof -
  have "no_endtime (st\<lparr>stations := x, coNum := y\<rparr>) = no_endtime st" for st x y
    by (simp add: no_endtime_def)
  then show ?thesis
    using assms by (simp add: parse_json_channel_def Let_def no_endtime_events)
qed

lemma no_endtime_channels:
  "no_endtime (snd acc) \<Longrightarrow> no_endtime (snd (fold (parse_json_channel cfg env) channels acc))"
  by (induction channels arbitrary: acc) (simp_all add: no_endtime_parse_json_channel)

lemma no_endtime_parse_json:
  "no_endtime st \<Longrightarrow> no_endtime (parse_json cfg env ms st)"
  by (simp add: parse_json_def no_endtime_channels split: option.splits)

lemma no_endtime_bucket:
  assumes "no_endtime st"
  shows "no_endtime (loop_state (bucket cfg env max_count cnt ms st))"
proof -
  have a: "no_endtime (after_parse cfg ms s) = no_endtime s" for s
    by (rule no_endtime_schedule) simp
  have x: "no_endtime (xtvd_times max_count cnt ms st)"
    using assms by (simp add: no_endtime_def)
  have g: "no_endtime (snd (get_url cfg env ms 0 (xtvd_times max_count cnt ms st)))"
    using x by (simp add: no_endtime_def get_url_keeps)
  have c: "no_endtime (s\<lparr>cache := m\<rparr>) = no_endtime s" for s m
    by (simp add: no_endtime_def)
  show ?thesis
  proof (cases "must_fetch cfg (cache st ms \<noteq> None) (cnt div (24 div gridHours) + 1)")
    case True
    then show ?thesis
      using g by (simp add: bucket_fetch Let_def loop_state_def a c no_endtime_parse_json)
  next
    case False
    then show ?thesis
      using x by (simp add: bucket_cached loop_state_def a no_endtime_parse_json)
  qed
qed

lemma no_endtime_process_loop:
  "no_endtime st \<Longrightarrow> no_endtime (process_loop cfg env max_count cnt ms st)"
proof (induction "nat (max_count - cnt)" arbitrary: cnt ms st)
  case 0
  then show ?case by (subst process_loop.simps) simp
next
  case (Suc n)
  then have lt: "cnt < max_count" and n: "n = nat (max_count - (cnt + 1))"
    by linarith+
  from no_endtime_bucket [OF Suc.prems, of cfg env max_count cnt ms]
  have b: "no_endtime (loop_state (bucket cfg env max_count cnt ms st))" .
  show ?case
  proof (cases "bucket cfg env max_count cnt ms st")
    case (Break st')
    then show ?thesis
      using lt b by (subst process_loop.simps) (simp add: loop_state_def)
  next
    case (Next st')
    then have "no_endtime st'" using b by (simp add: loop_state_def)
    from Suc.hyps(1) [OF n this]
    show ?thesis using lt Next by (subst process_loop.simps) simp
  qed
qed

lemma grid_airings_lack_endtime:
  "no_endtime (process_data cfg env (init_state\<lparr>cache := files\<rparr>))"
proof -
  have "no_endtime (init_state\<lparr>cache := files\<rparr>)"
    by (simp add: no_endtime_def init_state_def)
  then show ?thesis by (simp add: process_data_def Let_def no_endtime_process_loop)
qed

lemma programmes_loop_drops_last:
  assumes "i < length key_array" and "i = length key_array - 1"
    and "map_of d (key_array ! i) = Some a" and "a_endtime a = None"
  shows "programmes_loop cfg st key_array i d out = Inr (out, AList.delete (key_array ! i) d)"
proof -
  have "programmes_loop cfg st key_array i d out
          = programmes_loop cfg st key_array (i + 1) (AList.delete (key_array ! i) d) out"
    using assms by (subst programmes_loop.simps) simp
  also have "\<dots> = Inr (out, AList.delete (key_array ! i) d)"
  proof -
    have "\<not> i + 1 < length key_array" using assms(1,2) by linarith
    then show ?thesis by (subst programmes_loop.simps) simp
  qed
  finally show ?thesis .
qed

text \<open>
  Claim C2 on the code. The two airings of the payload \<^verbatim>\<open>grid-a\<close> carry the explicit end
  times 200000 and 400000, which \<^verbatim>\<open>parse_json\<close> stores under the key \<^verbatim>\<open>endTime\<close>;
  \<^verbatim>\<open>print_programmes\<close> looks for the key \<^verbatim>\<open>endtime\<close>. It writes the first airing with the
  start of the second, 300000, as its stop time and drops the second, the final one, from
  the output and from the schedule.
\<close>

theorem C2_grid_end_time_ignored:
  "map (\<lambda>(k, a). (k, a_endTime a, a_endtime a))
     (station_airings (parse_json default_config grid_env 0 (cached_state ''grid-a''))
        ''007.10001'')
     = [(100000, Some 200000, None), (300000, Some 400000, None)]
   \<and> (case print_programmes default_config
             (parse_json default_config grid_env 0 (cached_state ''grid-a'')) of
        Inl f \<Rightarrow> False
      | Inr (els, st') \<Rightarrow>
          map (\<lambda>p. (pr_start p, pr_stop p)) els = [(100000, 300000)]
          \<and> map fst (station_airings st' ''007.10001'') = [100000])"
  by code_simp

text \<open>On airings that have the key \<^verbatim>\<open>endtime\<close> the renderer does what C2 says: the
  airings at 100 and 200 get the next start, the airing at 300 keeps its end time 400, and
  the final airing at 500, without end time, is dropped.\<close>

lemma print_programmes_endtime_example:
  "(case print_programmes default_config endtime_state of
      Inl f \<Rightarrow> False
    | Inr (els, st') \<Rightarrow>
        map (\<lambda>p. (pr_start p, pr_stop p)) els = [(100, 200), (200, 300), (300, 400)]
        \<and> map fst (station_airings st' ''7.10001'') = [100, 300, 200])"
  by code_simp

subsection \<open>The schedules section of the XTVD renderer\<close>

lemma failure_of_simps [simp]:
  "failure_of (Inl f) = Some f"
  "failure_of (Inr x) = None"
  by (simp_all add: failure_of_def)

lemma schedules_loop_xtvd_last:
  assumes "i < length key_array" and "i = length key_array - 1"
  shows "failure_of (schedules_loop_xtvd env st station key_array i d out) = Some (KeyError, out)"
proof (cases "map_of d (key_array ! i)")
  case None
  then show ?thesis
    using assms by (subst schedules_loop_xtvd.simps) simp
next
  case (Some a)
  have gone: "map_of (AList.delete (key_array ! i) d) (key_array ! i) = None"
    by (simp add: AList.delete_conv')
  have "schedules_loop_xtvd env st station key_array i d out =
        schedules_loop_xtvd env st station key_array i (AList.delete (key_array ! i) d) out"
    using assms Some by (subst schedules_loop_xtvd.simps) simp
  also have "failure_of \<dots> = Some (KeyError, out)"
    using assms gone by (subst schedules_loop_xtvd.simps) simp
  finally show ?thesis .
qed

lemma schedules_loop_xtvd_step:
  assumes "i < length key_array" and "i \<noteq> length key_array - 1"
  shows "(\<exists>err. schedules_loop_xtvd env st station key_array i d out = Inl (err, out))
       \<or> (\<exists>out'. schedules_loop_xtvd env st station key_array i d out
                  = schedules_loop_xtvd env st station key_array (i + 1) d out')"
proof (cases "map_of d (key_array ! i)")
  case None
  then have "schedules_loop_xtvd env st station key_array i d out = Inl (KeyError, out)"
    using assms by (subst schedules_loop_xtvd.simps) simp
  then show ?thesis by blast
next
  case a: (Some a)
  show ?thesis
  proof (cases "map_of d (key_array ! (i + 1))")
    case None
    then have "schedules_loop_xtvd env st station key_array i d out = Inl (KeyError, out)"
      using assms a by (subst schedules_loop_xtvd.simps) simp
    then show ?thesis by blast
  next
    case b: (Some b)
    show ?thesis
    proof (cases "conv_duration_xtvd env")
      case None
      then have "schedules_loop_xtvd env st station key_array i d out = Inl (AttributeError, out)"
        using assms a b by (subst schedules_loop_xtvd.simps) simp
      then show ?thesis by blast
    next
      case c: (Some conv)
      show ?thesis
      proof (cases "map_of (stations st) station")
        case None
        then have "schedules_loop_xtvd env st station key_array i d out = Inl (KeyError, out)"
          using assms a b c by (subst schedules_loop_xtvd.simps) simp
        then show ?thesis by blast
      next
        case (Some x)
        then have "schedules_loop_xtvd env st station key_array i d out
            = schedules_loop_xtvd env st station key_array (i + 1) d
                (out @ [\<lparr>sx_program = a_program a, sx_station = stnNum x,
                          sx_time = a_time a,
                          sx_duration = conv (a_time b - a_time a),
                          sx_hdtv = a_quality a,
                          sx_new = (a_new a \<or> a_live a)\<rparr>])"
          using assms a b c by (subst schedules_loop_xtvd.simps) simp
        then show ?thesis by blast
      qed
    qed
  qed
qed

lemma schedules_loop_xtvd_raises:
  "i < length key_array \<Longrightarrow>
   failure_of (schedules_loop_xtvd env st station key_array i d out) \<noteq> None"
proof (induction "length key_array - i" arbitrary: i d out)
  case 0
  then show ?case by simp
next
  case (Suc n)
  show ?case
  proof (cases "i = length key_array - 1")
    case True
    then show ?thesis using schedules_loop_xtvd_last [OF Suc.prems True] by simp
  next
    case False
    then have n: "n = length key_array - (i + 1)" and lt: "i + 1 < length key_array"
      using Suc.hyps(2) Suc.prems by linarith+
    have ih: "failure_of (schedules_loop_xtvd env st station key_array (i + 1) d out') \<noteq> None"
      for out'
      using Suc.hyps(1) [OF n lt] .
    from schedules_loop_xtvd_step [OF Suc.prems False, of env st station d out]
    show ?thesis
    proof
      assume "\<exists>err. schedules_loop_xtvd env st station key_array i d out = Inl (err, out)"
      then show ?thesis by auto
    next
      assume "\<exists>out'. schedules_loop_xtvd env st station key_array i d out
                  = schedules_loop_xtvd env st station key_array (i + 1) d out'"
      then obtain out' where "schedules_loop_xtvd env st station key_array i d out
                  = schedules_loop_xtvd env st station key_array (i + 1) d out'" ..
      then show ?thesis using ih [of out'] by simp
    qed
  qed
qed

lemma schedules_stations_xtvd_raises:
  assumes "\<exists>station \<in> set keys. \<exists>d. map_of (schedule st) station = Some d \<and> d \<noteq> []"
  shows "failure_of (schedules_stations_xtvd env keys st out) \<noteq> None"
  using assms
proof (induction keys arbitrary: st out)
  case Nil
  then show ?case by simp
next
  case (Cons station rest)
  show ?case
  proof (cases "map_of (schedule st) station")
    case None
    then show ?thesis by simp
  next
    case (Some d)
    show ?thesis
    proof (cases "d = []")
      case False
      then have "0 < length (sort (map fst d))" by simp
      from schedules_loop_xtvd_raises [OF this, of env st station d out]
      obtain f where "schedules_loop_xtvd env st station (sort (map fst d)) 0 d out = Inl f"
        by (cases "schedules_loop_xtvd env st station (sort (map fst d)) 0 d out") auto
      then show ?thesis using Some by simp
    next
      case True
      have loop: "schedules_loop_xtvd env st station (sort (map fst d)) 0 d out = Inr (out, d)"
        using True by (subst schedules_loop_xtvd.simps) simp
      define st' where "st' = st\<lparr>schedule := AList.update station d (schedule st)\<rparr>"
      from Cons.prems obtain station' d' where
        w: "station' \<in> set (station # rest)" "map_of (schedule st) station' = Some d'" "d' \<noteq> []"
        by blast
      then have ne: "station' \<noteq> station" using Some True by auto
      then have r: "station' \<in> set rest" and m: "map_of (schedule st') station' = Some d'"
        using w by (auto simp: st'_def AList.update_conv')
      have "\<exists>station \<in> set rest. \<exists>d. map_of (schedule st') station = Some d \<and> d \<noteq> []"
        using r m w(3) by blast
      then have "failure_of (schedules_stations_xtvd env rest st' out) \<noteq> None"
        by (rule Cons.IH)
      then show ?thesis using Some loop by (simp add: st'_def)
    qed
  qed
qed

lemma set_insert_cmp: "insert_cmp c x ys = Inr zs \<Longrightarrow> set zs = insert x (set ys)"
proof (induction ys arbitrary: zs)
  case Nil
  then show ?case by auto
next
  case (Cons y ys)
  show ?case
  proof (cases "c x y")
    case (Inl err)
    with Cons.prems show ?thesis by simp
  next
    case (Inr r)
    show ?thesis
    proof (cases "r \<le> 0")
      case True
      with Cons.prems Inr show ?thesis by auto
    next
      case False
      show ?thesis
      proof (cases "insert_cmp c x ys")
        case (Inl err)
        with Cons.prems \<open>c x y = Inr r\<close> False show ?thesis by simp
      next
        case ins: (Inr ws)
        then have "zs = y # ws" using Cons.prems \<open>c x y = Inr r\<close> False by simp
        moreover have "set ws = insert x (set ys)" using Cons.IH [OF ins] .
        ultimately show ?thesis by auto
      qed
    qed
  qed
qed

lemma set_sorted_cmp: "sorted_cmp c xs = Inr ys \<Longrightarrow> set ys = set xs"
proof (induction xs arbitrary: ys)
  case Nil
  then show ?case by simp
next
  case (Cons x xs)
  show ?case
  proof (cases "sorted_cmp c xs")
    case (Inl err)
    with Cons.prems show ?thesis by simp
  next
    case (Inr ws)
    then have "insert_cmp c x ws = Inr ys" using Cons.prems by simp
    from set_insert_cmp [OF this] Cons.IH [OF Inr] show ?thesis by simp
  qed
qed

text \<open>
  Claim C3 on the code. Whenever some station has a non-empty airing set,
  \<^verbatim>\<open>print_schedules_xtvd\<close> does not return: it raises. At the last index the loop deletes
  the key and goes on at the same index, where the key is not there any more.
\<close>

theorem C3_schedules_xtvd_raises:
  assumes "map_of (schedule st) station = Some d" and "d \<noteq> []"
  shows "failure_of (print_schedules_xtvd env st) \<noteq> None"
proof (cases "sorted_cmp (sort_chan st) (map fst (schedule st))")
  case (Inl err)
  then show ?thesis by (simp add: print_schedules_xtvd_def)
next
  case (Inr keys)
  have "station \<in> set (map fst (schedule st))"
    using map_of_SomeD [OF assms(1)] by force
  then have "station \<in> set keys" using set_sorted_cmp [OF Inr] by simp
  then have "\<exists>station \<in> set keys. \<exists>d. map_of (schedule st) station = Some d \<and> d \<noteq> []"
    using assms by blast
  from schedules_stations_xtvd_raises [OF this]
  show ?thesis using Inr by (simp add: print_schedules_xtvd_def)
qed

text \<open>C3 at concrete schedules. A station with one airing: \<^verbatim>\<open>KeyError\<close>, nothing written.
  A station with two airings: \<^verbatim>\<open>AttributeError\<close> at the first record, since the class has
  no method \<^verbatim>\<open>conv_duration_xtvd\<close>; with such a method supplied, the first record is written
  and the \<^verbatim>\<open>KeyError\<close> follows.\<close>

theorem C3_witness:
  "failure_of (print_schedules_xtvd grid_env
                 (parse_json default_config grid_env 0 (cached_state ''grid-b'')))
     = Some (KeyError, [])
   \<and> failure_of (print_schedules_xtvd grid_env
                 (parse_json default_config grid_env 0 (cached_state ''grid-a'')))
     = Some (AttributeError, [])
   \<and> failure_of (print_schedules_xtvd (grid_env\<lparr>conv_duration_xtvd := Some (\<lambda>ms. ''00:03:20'')\<rparr>)
                 (parse_json default_config grid_env 0 (cached_state ''grid-a'')))
     = Some (KeyError, [\<lparr>sx_program = ''EP000000010001'', sx_station = ''10001'',
                         sx_time = 100000, sx_duration = ''00:03:20'', sx_hdtv = False,
                         sx_new = False\<rparr>])
   \<and> failure_of (print_schedules_xtvd grid_env
                 (parse_json default_config grid_env 0 (cached_state ''grid-b''))) \<noteq> None"
proof -
  have e: "failure_of (print_schedules_xtvd grid_env
                 (parse_json default_config grid_env 0 (cached_state ''grid-b'')))
     = Some (KeyError, [])
   \<and> failure_of (print_schedules_xtvd grid_env
                 (parse_json default_config grid_env 0 (cached_state ''grid-a'')))
     = Some (AttributeError, [])
   \<and> failure_of (print_schedules_xtvd (grid_env\<lparr>conv_duration_xtvd := Some (\<lambda>ms. ''00:03:20'')\<rparr>)
                 (parse_json default_config grid_env 0 (cached_state ''grid-a'')))
     = Some (KeyError, [\<lparr>sx_program = ''EP000000010001'', sx_station = ''10001'',
                         sx_time = 100000, sx_duration = ''00:03:20'', sx_hdtv = False,
                         sx_new = False\<rparr>])"
    by code_simp
  have m: "map_of (schedule (parse_json default_config grid_env 0 (cached_state ''grid-b'')))
             ''9.10002''
           = Some (station_airings (parse_json default_config grid_env 0 (cached_state ''grid-b''))
                     ''9.10002'')
         \<and> station_airings (parse_json default_config grid_env 0 (cached_state ''grid-b''))
                     ''9.10002'' \<noteq> []"
    by code_simp
  show ?thesis
    using e C3_schedules_xtvd_raises [OF conjunct1 [OF m] conjunct2 [OF m], of grid_env]
    by simp
qed

end
